theory Spec2Isabelle
  imports Complex_Main
begin

section \<open>Python values that fail: errors as values\<close>

text \<open>
  The two example scripts (\<^verbatim>\<open>a2c_gym_pendulumnovel.py\<close> and \<^verbatim>\<open>trpo_cartpole.py\<close>)
  are modelled statement by statement. A Python exception is a value of \<open>py_error\<close>;
  a computation that may raise returns \<open>py_error + 'a\<close>, with \<open>Inl\<close> for the raise.
  An observation is a list of finite floats, each taken as the real it denotes: the
  operations used below on observations (multiplication by the integer constants 1
  and 0) are exact on finite floats. The tensors of the networks are float32 values
  with their infinities and NaN.
\<close>

datatype py_error =
    ValueError      \<comment> \<open>numpy: operands could not be broadcast together\<close>
  | RuntimeError    \<comment> \<open>torch: mat1 and mat2 shapes cannot be multiplied\<close>
  | KeyError string \<comment> \<open>dict lookup of a missing key\<close>
  | TypeError       \<comment> \<open>subscript assignment into something that is not a dict\<close>

definition then_apply :: "py_error + 'a \<Rightarrow> ('a \<Rightarrow> py_error + 'b) \<Rightarrow> py_error + 'b" where
  "then_apply r f = (case r of Inl e \<Rightarrow> Inl e | Inr v \<Rightarrow> f v)"

section \<open>The observation wrapper of the A2C script\<close>

text \<open>
  \<^verbatim>\<open>observation * np.array([1, 1, 0])\<close> is numpy's elementwise product with
  broadcasting. For one-dimensional operands: equal lengths multiply pointwise, an
  operand of length one is stretched along the other, every other pair of shapes raises
  ValueError.
\<close>

definition np_multiply :: "real list \<Rightarrow> real list \<Rightarrow> py_error + real list" where
  "np_multiply a b =
     (if length a = length b then Inr (map2 (*) a b)
      else if length a = 1 then Inr (map (\<lambda>y. hd a * y) b)
      else if length b = 1 then Inr (map (\<lambda>x. x * hd b) a)
      else Inl ValueError)"

text \<open>
  \<^verbatim>\<open>class NoVelocityWrapper(gym.ObservationWrapper)\<close>: the instance holds the wrapped
  environment (\<open>env\<close>); \<open>observation\<close> receives \<open>self\<close> and the raw observation and
  assigns to neither.
\<close>

record 'e NoVelocityWrapper =
  env :: 'e

definition observation :: "'e NoVelocityWrapper \<Rightarrow> real list \<Rightarrow> py_error + real list" where
  "observation self obs = np_multiply obs [1, 1, 0]"

section \<open>float32 tensors\<close>

text \<open>
  The tensors of the networks hold float32 values: the finite ones (a real each; the
  two zeros are one value), the two infinities and NaN. A finite result is rounded to
  the nearest float32, ties to the even significand, with 24 significant bits and
  exponents from -126 to 127; a rounded value beyond the largest finite float32
  overflows to an infinity. Sums and products follow IEEE 754 on the special values:
  NaN propagates, zero times infinity and infinity minus infinity are NaN.
\<close>

datatype float32 = Fin real | PInf | NInf | NaN

definition float32_max :: real where
  "float32_max = (2 ^ 24 - 1) * 2 ^ 104"

definition round_even :: "real \<Rightarrow> int" where
  "round_even x =
     (let f = \<lfloor>x\<rfloor>; d = x - of_int f
      in if d < 1 / 2 then f else if d > 1 / 2 then f + 1 else if even f then f else f + 1)"

definition float32_round :: "real \<Rightarrow> float32" where
  "float32_round r =
     (if r = 0 then Fin 0
      else let e = max (- 126) \<lfloor>log 2 \<bar>r\<bar>\<rfloor>;
               ulp = 2 powi (e - 23);
               v = of_int (round_even (r / ulp)) * ulp
           in if \<bar>v\<bar> > float32_max then (if r > 0 then PInf else NInf) else Fin v)"

fun fl_add :: "float32 \<Rightarrow> float32 \<Rightarrow> float32" where
  "fl_add NaN y = NaN"
| "fl_add x NaN = NaN"
| "fl_add (Fin a) (Fin b) = float32_round (a + b)"
| "fl_add PInf NInf = NaN"
| "fl_add NInf PInf = NaN"
| "fl_add PInf y = PInf"
| "fl_add x PInf = PInf"
| "fl_add NInf y = NInf"
| "fl_add x NInf = NInf"

fun fl_mul :: "float32 \<Rightarrow> float32 \<Rightarrow> float32" where
  "fl_mul NaN y = NaN"
| "fl_mul x NaN = NaN"
| "fl_mul (Fin a) (Fin b) = float32_round (a * b)"
| "fl_mul (Fin a) PInf = (if a = 0 then NaN else if a > 0 then PInf else NInf)"
| "fl_mul (Fin a) NInf = (if a = 0 then NaN else if a > 0 then NInf else PInf)"
| "fl_mul PInf (Fin b) = (if b = 0 then NaN else if b > 0 then PInf else NInf)"
| "fl_mul NInf (Fin b) = (if b = 0 then NaN else if b > 0 then NInf else PInf)"
| "fl_mul PInf PInf = PInf"
| "fl_mul PInf NInf = NInf"
| "fl_mul NInf PInf = NInf"
| "fl_mul NInf NInf = PInf"

text \<open>
  \<^verbatim>\<open>torch.tanh\<close>, \<^verbatim>\<open>nn.ReLU\<close> and \<^verbatim>\<open>nn.ELU\<close> (alpha = 1) on one float32. The
  hyperbolic tangent of an infinity is 1 or -1, NaN stays NaN under all three.
\<close>

fun tanh32 :: "float32 \<Rightarrow> float32" where
  "tanh32 (Fin x) = float32_round (tanh x)"
| "tanh32 PInf = Fin 1"
| "tanh32 NInf = Fin (- 1)"
| "tanh32 NaN = NaN"

fun relu :: "float32 \<Rightarrow> float32" where
  "relu (Fin x) = Fin (max 0 x)"
| "relu PInf = PInf"
| "relu NInf = Fin 0"
| "relu NaN = NaN"

fun elu :: "float32 \<Rightarrow> float32" where
  "elu (Fin x) = (if x > 0 then Fin x else float32_round (exp x - 1))"
| "elu PInf = PInf"
| "elu NInf = Fin (- 1)"
| "elu NaN = NaN"

section \<open>The function approximators\<close>

text \<open>
  \<^verbatim>\<open>gym.spaces.Box\<close>, one-dimensional: the lower and upper bound of every component.
  The library's \<^verbatim>\<open>Model.__init__\<close> stores the two spaces and derives
  \<^verbatim>\<open>num_observations\<close> and \<^verbatim>\<open>num_actions\<close> from them: the number of components.
\<close>

record Box =
  low :: "real list"
  high :: "real list"

definition space_size :: "Box \<Rightarrow> nat" where
  "space_size space = length (low space)"

text \<open>
  \<^verbatim>\<open>nn.Linear(in_features, out_features)\<close>: a weight matrix of \<open>out_features\<close> rows
  and \<open>in_features\<close> columns and a bias vector. torch draws the initial values at
  random; here they are the arguments \<open>w\<close> (row, column) and \<open>b\<close> (row), so that a
  layer can hold any parameter values of its shape.
\<close>

record Linear =
  in_features :: nat
  out_features :: nat
  weight :: "float32 list list"
  bias :: "float32 list"

definition nn_Linear :: "nat \<Rightarrow> nat \<Rightarrow> (nat \<Rightarrow> nat \<Rightarrow> float32) \<Rightarrow> (nat \<Rightarrow> float32) \<Rightarrow> Linear" where
  "nn_Linear n_in n_out w b =
     \<lparr>in_features = n_in, out_features = n_out,
      weight = map (\<lambda>i. map (w i) [0..<n_in]) [0..<n_out],
      bias = map b [0..<n_out]\<rparr>"

text \<open>
  The product of a weight row with the input: the products are added one after the
  other, each sum rounded. (torch leaves the order of the additions to its backend; the
  bound proved below is a property of the squashing that follows the network and does
  not depend on it.)
\<close>

definition dot :: "float32 list \<Rightarrow> float32 list \<Rightarrow> float32" where
  "dot a b = foldl fl_add (Fin 0) (map2 fl_mul a b)"

text \<open>\<^verbatim>\<open>x @ W.T + b\<close>; torch raises RuntimeError when x has not \<open>in_features\<close> components.\<close>

definition Linear_forward :: "Linear \<Rightarrow> float32 list \<Rightarrow> py_error + float32 list" where
  "Linear_forward l x =
     (if length x = in_features l
      then Inr (map2 (\<lambda>row c. fl_add (dot row x) c) (weight l) (bias l))
      else Inl RuntimeError)"

datatype module = Linear_layer Linear | ReLU | ELU

fun module_forward :: "module \<Rightarrow> float32 list \<Rightarrow> py_error + float32 list" where
  "module_forward (Linear_layer l) x = Linear_forward l x"
| "module_forward ReLU x = Inr (map relu x)"
| "module_forward ELU x = Inr (map elu x)"

text \<open>\<^verbatim>\<open>nn.Sequential\<close>: the modules in order, each applied to the output of the one before.\<close>

fun Sequential_forward :: "module list \<Rightarrow> float32 list \<Rightarrow> py_error + float32 list" where
  "Sequential_forward [] x = Inr x"
| "Sequential_forward (m # ms) x = then_apply (module_forward m x) (Sequential_forward ms)"

text \<open>
  The parameter values of a three-layer network: \<open>W k i j\<close> is entry (i, j) of the
  weight of the k-th linear layer, \<open>B k i\<close> entry i of its bias.
\<close>

subsection \<open>The A2C script's Policy (Pendulum)\<close>

record a2c_Policy =
  a2c_observation_space :: Box
  a2c_action_space :: Box
  a2c_device :: string
  a2c_num_observations :: nat
  a2c_num_actions :: nat
  a2c_net :: "module list"
  a2c_log_std_parameter :: "float32 list"

definition a2c_Sequential :: "nat \<Rightarrow> nat \<Rightarrow> (nat \<Rightarrow> nat \<Rightarrow> nat \<Rightarrow> float32) \<Rightarrow> (nat \<Rightarrow> nat \<Rightarrow> float32) \<Rightarrow> module list" where
  "a2c_Sequential n_obs n_act W B =
     [Linear_layer (nn_Linear n_obs 64 (W 0) (B 0)),
      ReLU,
      Linear_layer (nn_Linear 64 64 (W 1) (B 1)),
      ReLU,
      Linear_layer (nn_Linear 64 n_act (W 2) (B 2))]"

definition a2c_Policy_init ::
  "Box \<Rightarrow> Box \<Rightarrow> string \<Rightarrow> (nat \<Rightarrow> nat \<Rightarrow> nat \<Rightarrow> float32) \<Rightarrow> (nat \<Rightarrow> nat \<Rightarrow> float32) \<Rightarrow> a2c_Policy" where
  "a2c_Policy_init observation_space action_space device W B =
     \<lparr>a2c_observation_space = observation_space,
      a2c_action_space = action_space,
      a2c_device = device,
      a2c_num_observations = space_size observation_space,
      a2c_num_actions = space_size action_space,
      a2c_net = a2c_Sequential (space_size observation_space) (space_size action_space) W B,
      a2c_log_std_parameter = replicate (space_size action_space) (Fin 0)\<rparr>"

text \<open>
  \<^verbatim>\<open>return 2 * torch.tanh(self.net(inputs["states"])), self.log_std_parameter, {}\<close>.
  \<open>inputs\<close> is a dict of tensors; a missing key raises KeyError.
\<close>

definition a2c_Policy_compute ::
  "a2c_Policy \<Rightarrow> (string \<rightharpoonup> float32 list) \<Rightarrow> string
     \<Rightarrow> py_error + (float32 list \<times> float32 list \<times> (string \<rightharpoonup> float32 list))" where
  "a2c_Policy_compute self inputs role =
     (case inputs ''states'' of
        None \<Rightarrow> Inl (KeyError ''states'')
      | Some states \<Rightarrow>
          then_apply (Sequential_forward (a2c_net self) states)
            (\<lambda>z. Inr (map (\<lambda>v. fl_mul (Fin 2) (tanh32 v)) z, a2c_log_std_parameter self, Map.empty)))"

subsection \<open>The TRPO script's Policy (Cartpole)\<close>

record trpo_Policy =
  trpo_observation_space :: Box
  trpo_action_space :: Box
  trpo_device :: string
  trpo_num_observations :: nat
  trpo_num_actions :: nat
  trpo_net :: "module list"
  trpo_log_std_parameter :: "float32 list"

definition trpo_Sequential :: "nat \<Rightarrow> nat \<Rightarrow> (nat \<Rightarrow> nat \<Rightarrow> nat \<Rightarrow> float32) \<Rightarrow> (nat \<Rightarrow> nat \<Rightarrow> float32) \<Rightarrow> module list" where
  "trpo_Sequential n_obs n_act W B =
     [Linear_layer (nn_Linear n_obs 32 (W 0) (B 0)),
      ELU,
      Linear_layer (nn_Linear 32 32 (W 1) (B 1)),
      ELU,
      Linear_layer (nn_Linear 32 n_act (W 2) (B 2))]"

definition trpo_Policy_init ::
  "Box \<Rightarrow> Box \<Rightarrow> string \<Rightarrow> (nat \<Rightarrow> nat \<Rightarrow> nat \<Rightarrow> float32) \<Rightarrow> (nat \<Rightarrow> nat \<Rightarrow> float32) \<Rightarrow> trpo_Policy" where
  "trpo_Policy_init observation_space action_space device W B =
     \<lparr>trpo_observation_space = observation_space,
      trpo_action_space = action_space,
      trpo_device = device,
      trpo_num_observations = space_size observation_space,
      trpo_num_actions = space_size action_space,
      trpo_net = trpo_Sequential (space_size observation_space) (space_size action_space) W B,
      trpo_log_std_parameter = replicate (space_size action_space) (Fin 0)\<rparr>"

text \<open>\<^verbatim>\<open>return self.net(states), self.log_std_parameter\<close>; \<open>taken_actions\<close> is not read.\<close>

definition trpo_Policy_compute ::
  "trpo_Policy \<Rightarrow> float32 list \<Rightarrow> float32 list \<Rightarrow> py_error + (float32 list \<times> float32 list)" where
  "trpo_Policy_compute self states taken_actions =
     then_apply (Sequential_forward (trpo_net self) states)
       (\<lambda>z. Inr (z, trpo_log_std_parameter self))"

text \<open>
  An action vector lies within a Box when every component is finite and lies between
  its bounds; an infinity or a NaN lies within no bounds.
\<close>

fun between :: "real \<Rightarrow> float32 \<Rightarrow> real \<Rightarrow> bool" where
  "between lo (Fin u) hi = (lo \<le> u \<and> u \<le> hi)"
| "between lo PInf hi = False"
| "between lo NInf hi = False"
| "between lo NaN hi = False"

definition in_bounds :: "Box \<Rightarrow> float32 list \<Rightarrow> bool" where
  "in_bounds space a =
     (length a = length (low space) \<and> length a = length (high space)
      \<and> list_all (\<lambda>(lo, v, hi). between lo v hi) (zip (low space) (zip a (high space))))"

section \<open>The environment-loader fallback of the TRPO script\<close>

text \<open>
  \<^verbatim>\<open>try: env = load_isaacgym_env_preview4(task_name="Cartpole")\<close>
  \<^verbatim>\<open>except Exception as e: print(...format(e)); env = load_isaacgym_env_preview2("Cartpole")\<close>

  What a loader raises is either an instance of Python's class \<open>Exception\<close>, carrying
  the text \<open>str(e)\<close>, or an instance of \<open>BaseException\<close> outside \<open>Exception\<close>
  (KeyboardInterrupt, SystemExit), which \<^verbatim>\<open>except Exception\<close> does not catch. The two
  loaders are library functions; they are arguments of the model, each giving the
  outcome of its call for a task name. What the script does is recorded, in order, as a
  list of events.
\<close>

datatype raised = Exception string | BaseException string

datatype loader = Preview4 | Preview2

datatype event = Call loader string | Print string

definition failed_message :: "string \<Rightarrow> string" where
  "failed_message e = ''Isaac Gym (preview 3/4) failed: '' @ e @ [CHR 0x0A] @ ''Trying preview 2...''"

definition load_env ::
  "(string \<Rightarrow> raised + 'env) \<Rightarrow> (string \<Rightarrow> raised + 'env) \<Rightarrow> event list
     \<Rightarrow> (raised + 'env) \<times> event list" where
  "load_env load_isaacgym_env_preview4 load_isaacgym_env_preview2 events =
     (case load_isaacgym_env_preview4 ''Cartpole'' of
        Inr loaded \<Rightarrow> (Inr loaded, events @ [Call Preview4 ''Cartpole''])
      | Inl (Exception e) \<Rightarrow>
          (load_isaacgym_env_preview2 ''Cartpole'',
           events @ [Call Preview4 ''Cartpole'', Print (failed_message e),
                     Call Preview2 ''Cartpole''])
      | Inl (BaseException b) \<Rightarrow>
          (Inl (BaseException b), events @ [Call Preview4 ''Cartpole'']))"

section \<open>Configuration dictionaries\<close>

text \<open>
  Python dicts are objects: a variable or a dict entry holds a reference, and
  \<^verbatim>\<open>dict.copy()\<close> is shallow. The store maps addresses to dicts; \<open>fresh\<close> is the next
  unused address. Values are the ones the scripts write: numbers, references to
  dicts, and opaque library objects (classes such as \<^verbatim>\<open>KLAdaptiveRL\<close>, the
  environment's observation space, the device).
\<close>

datatype pyval =
    PyInt int
  | PyFloat real
  | PyStr string
  | PyBool bool
  | PyNone
  | Ref nat
  | Obj string

type_synonym dict = "string \<rightharpoonup> pyval"

record store =
  dicts :: "nat \<rightharpoonup> dict"
  fresh :: nat

text \<open>Every allocated address is below \<open>fresh\<close>.\<close>

definition store_ok :: "store \<Rightarrow> bool" where
  "store_ok st = (\<forall>a. a \<in> dom (dicts st) \<longrightarrow> a < fresh st)"

text \<open>A dict display \<^verbatim>\<open>{k1: v1, ...}\<close>: a new object.\<close>

definition dict_literal :: "(string \<times> pyval) list \<Rightarrow> store \<Rightarrow> py_error + (nat \<times> store)" where
  "dict_literal kvs st =
     Inr (fresh st, st\<lparr>dicts := (dicts st)(fresh st \<mapsto> map_of (rev kvs)), fresh := Suc (fresh st)\<rparr>)"

text \<open>\<^verbatim>\<open>d.copy()\<close>: a new object with the same entries (the same references).\<close>

definition dict_copy :: "nat \<Rightarrow> store \<Rightarrow> py_error + (nat \<times> store)" where
  "dict_copy a st =
     (case dicts st a of
        None \<Rightarrow> Inl TypeError
      | Some d \<Rightarrow>
          Inr (fresh st, st\<lparr>dicts := (dicts st)(fresh st \<mapsto> d), fresh := Suc (fresh st)\<rparr>))"

text \<open>\<^verbatim>\<open>d[k]\<close> and \<^verbatim>\<open>d[k] = v\<close>, for \<open>d\<close> a value.\<close>

definition getitem :: "pyval \<Rightarrow> string \<Rightarrow> store \<Rightarrow> py_error + pyval" where
  "getitem d k st =
     (case d of
        Ref a \<Rightarrow>
          (case dicts st a of
             None \<Rightarrow> Inl TypeError
           | Some m \<Rightarrow> (case m k of None \<Rightarrow> Inl (KeyError k) | Some v \<Rightarrow> Inr v))
      | _ \<Rightarrow> Inl TypeError)"

definition setitem :: "pyval \<Rightarrow> string \<Rightarrow> pyval \<Rightarrow> store \<Rightarrow> py_error + store" where
  "setitem d k v st =
     (case d of
        Ref a \<Rightarrow>
          (case dicts st a of
             None \<Rightarrow> Inl TypeError
           | Some m \<Rightarrow> Inr (st\<lparr>dicts := (dicts st)(a \<mapsto> m(k \<mapsto> v))\<rparr>))
      | _ \<Rightarrow> Inl TypeError)"

text \<open>\<^verbatim>\<open>d[k1][k2] = v\<close>: look \<open>k1\<close> up, then assign into what it refers to.\<close>

definition setitem2 :: "pyval \<Rightarrow> string \<Rightarrow> string \<Rightarrow> pyval \<Rightarrow> store \<Rightarrow> py_error + store" where
  "setitem2 d k1 k2 v st = then_apply (getitem d k1 st) (\<lambda>inner. setitem inner k2 v st)"

text \<open>\<^verbatim>\<open>d[k] = {k1: v1, ...}\<close>: the display is evaluated, then assigned.\<close>

definition setitem_literal ::
  "pyval \<Rightarrow> string \<Rightarrow> (string \<times> pyval) list \<Rightarrow> store \<Rightarrow> py_error + store" where
  "setitem_literal d k kvs st =
     then_apply (dict_literal kvs st) (\<lambda>(a, st'). setitem d k (Ref a) st')"

text \<open>A sequence of statements, each a store transformer that may raise.\<close>

fun run :: "(store \<Rightarrow> py_error + store) list \<Rightarrow> store \<Rightarrow> py_error + store" where
  "run [] st = Inr st"
| "run (stmt # stmts) st = then_apply (stmt st) (run stmts)"

text \<open>
  Lines 82 to 101 of the A2C script. \<open>A2C_DEFAULT_CONFIG\<close> is the address of the
  library's default configuration, \<open>observation_space\<close> and \<open>device\<close> are
  \<^verbatim>\<open>env.observation_space\<close> and \<^verbatim>\<open>device\<close>. The result is the reference held by
  \<^verbatim>\<open>cfg_a2c\<close> and the store.
\<close>

definition a2c_overrides :: "pyval \<Rightarrow> pyval \<Rightarrow> pyval \<Rightarrow> (store \<Rightarrow> py_error + store) list" where
  "a2c_overrides cfg_a2c observation_space device =
     [setitem cfg_a2c ''rollouts'' (PyInt 1024),
      setitem cfg_a2c ''learning_epochs'' (PyInt 10),
      setitem cfg_a2c ''mini_batches'' (PyInt 32),
      setitem cfg_a2c ''discount_factor'' (PyFloat 0.9),
      setitem cfg_a2c ''lambda'' (PyFloat 0.95),
      setitem cfg_a2c ''learning_rate'' (PyFloat 0.001),
      setitem cfg_a2c ''learning_rate_scheduler'' (Obj ''KLAdaptiveRL''),
      setitem_literal cfg_a2c ''learning_rate_scheduler_kwargs''
        [(''kl_threshold'', PyFloat 0.008), (''min_lr'', PyFloat 0.0005)],
      setitem cfg_a2c ''random_timesteps'' (PyInt 0),
      setitem cfg_a2c ''learning_starts'' (PyInt 0),
      setitem cfg_a2c ''grad_norm_clip'' (PyFloat 0.5),
      setitem cfg_a2c ''entropy_loss_scale'' (PyFloat 0.0),
      setitem cfg_a2c ''state_preprocessor'' (Obj ''RunningStandardScaler''),
      setitem_literal cfg_a2c ''state_preprocessor_kwargs''
        [(''size'', observation_space), (''device'', device)],
      setitem cfg_a2c ''value_preprocessor'' (Obj ''RunningStandardScaler''),
      setitem_literal cfg_a2c ''value_preprocessor_kwargs''
        [(''size'', PyInt 1), (''device'', device)],
      setitem2 cfg_a2c ''experiment'' ''write_interval'' (PyInt 500),
      setitem2 cfg_a2c ''experiment'' ''checkpoint_interval'' (PyInt 5000)]"

definition a2c_configure :: "nat \<Rightarrow> pyval \<Rightarrow> pyval \<Rightarrow> store \<Rightarrow> py_error + (pyval \<times> store)" where
  "a2c_configure A2C_DEFAULT_CONFIG observation_space device st =
     then_apply (dict_copy A2C_DEFAULT_CONFIG st) (\<lambda>(a, st0).
     then_apply (run (a2c_overrides (Ref a) observation_space device) st0) (\<lambda>st1.
     Inr (Ref a, st1)))"

text \<open>Lines 85 to 98 of the TRPO script, in the same way.\<close>

definition trpo_overrides :: "pyval \<Rightarrow> pyval \<Rightarrow> pyval \<Rightarrow> (store \<Rightarrow> py_error + store) list" where
  "trpo_overrides cfg_trpo observation_space device =
     [setitem cfg_trpo ''rollouts'' (PyInt 16),
      setitem cfg_trpo ''learning_epochs'' (PyInt 6),
      setitem cfg_trpo ''mini_batches'' (PyInt 2),
      setitem cfg_trpo ''grad_norm_clip'' (PyFloat 0.5),
      setitem cfg_trpo ''value_loss_scale'' (PyFloat 2.0),
      setitem cfg_trpo ''lambda'' (PyFloat 0.95),
      setitem cfg_trpo ''state_preprocessor'' (Obj ''RunningStandardScaler''),
      setitem_literal cfg_trpo ''state_preprocessor_kwargs''
        [(''size'', observation_space), (''device'', device)],
      setitem cfg_trpo ''value_preprocessor'' (Obj ''RunningStandardScaler''),
      setitem_literal cfg_trpo ''value_preprocessor_kwargs''
        [(''size'', PyInt 1), (''device'', device)],
      setitem2 cfg_trpo ''experiment'' ''write_interval'' (PyInt 16),
      setitem2 cfg_trpo ''experiment'' ''checkpoint_interval'' (PyInt 125)]"

definition trpo_configure :: "nat \<Rightarrow> pyval \<Rightarrow> pyval \<Rightarrow> store \<Rightarrow> py_error + (pyval \<times> store)" where
  "trpo_configure TRPO_DEFAULT_CONFIG observation_space device st =
     then_apply (dict_copy TRPO_DEFAULT_CONFIG st) (\<lambda>(a, st0).
     then_apply (run (trpo_overrides (Ref a) observation_space device) st0) (\<lambda>st1.
     Inr (Ref a, st1)))"

text \<open>The keys the scripts assign at the top level of their configuration.\<close>

definition a2c_assigned :: "string list" where
  "a2c_assigned =
     [''rollouts'', ''learning_epochs'', ''mini_batches'', ''discount_factor'', ''lambda'',
      ''learning_rate'', ''learning_rate_scheduler'', ''learning_rate_scheduler_kwargs'',
      ''random_timesteps'', ''learning_starts'', ''grad_norm_clip'', ''entropy_loss_scale'',
      ''state_preprocessor'', ''state_preprocessor_kwargs'', ''value_preprocessor'',
      ''value_preprocessor_kwargs'']"

definition trpo_assigned :: "string list" where
  "trpo_assigned =
     [''rollouts'', ''learning_epochs'', ''mini_batches'', ''grad_norm_clip'',
      ''value_loss_scale'', ''lambda'', ''state_preprocessor'', ''state_preprocessor_kwargs'',
      ''value_preprocessor'', ''value_preprocessor_kwargs'']"

text \<open>
  Reading a configuration back: \<^verbatim>\<open>d[k]\<close> and \<^verbatim>\<open>d[k1][k2]\<close> where they evaluate,
  \<open>None\<close> where they raise.
\<close>

definition lookup :: "pyval \<Rightarrow> string \<Rightarrow> store \<Rightarrow> pyval option" where
  "lookup d k st = (case getitem d k st of Inl err \<Rightarrow> None | Inr v \<Rightarrow> Some v)"

definition lookup2 :: "pyval \<Rightarrow> string \<Rightarrow> string \<Rightarrow> store \<Rightarrow> pyval option" where
  "lookup2 d k1 k2 st = (case getitem d k1 st of Inl err \<Rightarrow> None | Inr inner \<Rightarrow> lookup inner k2 st)"

section \<open>The rollout memory\<close>

text \<open>
  Modelled from the spec: the class \<^verbatim>\<open>RandomMemory\<close> of the library
  (\<^verbatim>\<open>skrl.memories.torch\<close>), whose code is not among the examined sources. The spec
  describes it as a fixed-capacity append-only store keyed by environment index and
  timestep, with a size and a "full" signal used to trigger updates, and no eviction
  beyond wraparound; a transition is appended at each environment step and consumed in
  batch during an update. \<open>tensors\<close> maps a key (timestep slot, environment index) to
  the transition stored there, \<open>memory_index\<close> is the slot the next append writes,
  \<open>filled\<close> is the "full" signal.
\<close>

record 'a RandomMemory =
  memory_size :: nat
  num_envs :: nat
  memory_device :: string
  tensors :: "nat \<times> nat \<rightharpoonup> 'a"
  memory_index :: nat
  filled :: bool

definition RandomMemory_init :: "nat \<Rightarrow> nat \<Rightarrow> string \<Rightarrow> 'a RandomMemory" where
  "RandomMemory_init capacity n dev =
     \<lparr>memory_size = capacity, num_envs = n, memory_device = dev,
      tensors = Map.empty, memory_index = 0, filled = False\<rparr>"

text \<open>
  Modelled from the spec: one append stores one transition per environment (the
  components of \<open>row\<close>) in the current slot and advances the slot; past the last slot
  the index wraps around to the first and the memory signals that it is full.
\<close>

definition add_samples :: "'a list \<Rightarrow> 'a RandomMemory \<Rightarrow> 'a RandomMemory" where
  "add_samples row m =
     (let written =
            (\<lambda>(t, e). if t = memory_index m \<and> e < num_envs m \<and> e < length row
                      then Some (row ! e) else tensors m (t, e));
          i = memory_index m + 1
      in if i \<ge> memory_size m
         then m\<lparr>tensors := written, memory_index := 0, filled := True\<rparr>
         else m\<lparr>tensors := written, memory_index := i\<rparr>)"

text \<open>
  Modelled from the spec: an update consumes the stored transitions in one batch. The
  batch is the list of the keys that hold a transition, slot by slot and environment
  by environment.
\<close>

definition sample_all :: "'a RandomMemory \<Rightarrow> (nat \<times> nat) list" where
  "sample_all m =
     filter (\<lambda>k. case tensors m k of None \<Rightarrow> False | Some x \<Rightarrow> True)
       (List.product [0..<memory_size m] [0..<num_envs m])"

text \<open>Line 68 of each script: \<^verbatim>\<open>RandomMemory(memory_size=..., num_envs=env.num_envs, device=device)\<close>.\<close>

definition a2c_memory :: "nat \<Rightarrow> string \<Rightarrow> 'a RandomMemory" where
  "a2c_memory env_num_envs dev = RandomMemory_init 1024 env_num_envs dev"

definition trpo_memory :: "nat \<Rightarrow> string \<Rightarrow> 'a RandomMemory" where
  "trpo_memory env_num_envs dev = RandomMemory_init 16 env_num_envs dev"

section \<open>Properties of the observation wrapper\<close>

text \<open>
  Claim C2. For every observation of the expected shape, the 3-vector (x, y, angular
  velocity), the masking transform returns the 3-vector whose first and second
  components are those of the input and whose third component is zero; there is no
  other component.
\<close>

theorem observation_masks_velocity:
  "observation self [x, y, v] = Inr [x, y, 0]"
  by (simp add: observation_def np_multiply_def)

text \<open>
  Claim C6. The masking transform is a pure, stateless function: on an observation of
  the expected shape it never raises, and its result does not depend on the wrapper
  instance it is called on, so two applications to equal inputs, on any two wrappers
  around any two environments, return equal outputs.
\<close>

theorem observation_pure:
  "\<exists>r. observation (self1 :: 'a NoVelocityWrapper) [x, y, v] = Inr r
     \<and> observation (self2 :: 'b NoVelocityWrapper) [x, y, v] = Inr r"
  by (simp add: observation_def np_multiply_def)

text \<open>
  Claim C9. The masking transform is idempotent: on every observation of the expected
  shape, applying it to its own result succeeds and gives that result again.
\<close>

theorem observation_idempotent:
  "then_apply (observation self [x, y, v]) (observation self) = observation self [x, y, v]
     \<and> observation self [x, y, v] \<noteq> Inl e"
  by (simp add: observation_def np_multiply_def then_apply_def)

section \<open>Properties of the policy networks\<close>

lemma round_even_lower: "\<lfloor>x\<rfloor> \<le> round_even x"
  by (simp add: round_even_def Let_def)

lemma round_even_upper: "round_even x \<le> \<lceil>x\<rceil>"
proof -
  have "x - of_int \<lfloor>x\<rfloor> \<ge> 1 / 2 \<Longrightarrow> \<lfloor>x\<rfloor> + 1 \<le> \<lceil>x\<rceil>"
    by linarith
  moreover have "\<lfloor>x\<rfloor> \<le> \<lceil>x\<rceil>" by linarith
  ultimately show ?thesis
    by (auto simp: round_even_def Let_def)
qed

lemma round_even_of_int [simp]: "round_even (of_int n) = n"
  by (simp add: round_even_def Let_def)

lemma round_even_le_int: "x \<le> of_int N \<Longrightarrow> round_even x \<le> N"
  using round_even_upper [of x] by (meson ceiling_le order_trans)

lemma round_even_ge_int: "of_int N \<le> x \<Longrightarrow> N \<le> round_even x"
  using round_even_lower [of x] by (meson le_floor_iff order_trans)

lemma float32_round_within:
  assumes "\<bar>t\<bar> \<le> 2 ^ k" and "k \<le> 127"
  shows "\<exists>u. float32_round t = Fin u \<and> \<bar>u\<bar> \<le> 2 ^ k"
proof (cases "t = 0")
  case True
  then show ?thesis by (simp add: float32_round_def)
next
  case False
  define e where "e = max (- 126) \<lfloor>log 2 \<bar>t\<bar>\<rfloor>"
  define ulp :: real where "ulp = 2 powi (e - 23)"
  define v where "v = of_int (round_even (t / ulp)) * ulp"
  have pos: "0 < \<bar>t\<bar>" using False by simp
  have "log 2 \<bar>t\<bar> \<le> real k"
    using assms(1) pos by (simp add: log_le_iff powr_realpow)
  then have "\<lfloor>log 2 \<bar>t\<bar>\<rfloor> \<le> int k" by linarith
  then have ek: "e \<le> int k" by (simp add: e_def)
  have ulp_pos: "0 < ulp" by (simp add: ulp_def)
  define N :: int where "N = 2 ^ nat (int k - e + 23)"
  have "(2::real) powi (int k - e + 23) = 2 ^ nat (int k - e + 23)"
    using ek by (simp add: power_int_def)
  then have N: "of_int N = (2::real) powi (int k - e + 23)"
    by (simp add: N_def)
  have "(2::real) ^ k = 2 powi (int k)" by simp
  also have "\<dots> = 2 powi ((int k - e + 23) + (e - 23))" by simp
  also have "\<dots> = 2 powi (int k - e + 23) * 2 powi (e - 23)"
    by (rule power_int_add) simp
  finally have split: "(2::real) ^ k = of_int N * ulp"
    by (simp add: N ulp_def)
  have "\<bar>t\<bar> / ulp \<le> of_int N"
    using assms(1) split ulp_pos by (simp add: pos_divide_le_eq)
  then have up: "t / ulp \<le> of_int N" and lo: "of_int (- N) \<le> t / ulp"
    using ulp_pos by (simp_all add: abs_le_iff minus_divide_left [symmetric] field_simps)
  have r1: "round_even (t / ulp) \<le> N" using up by (rule round_even_le_int)
  have r2: "- N \<le> round_even (t / ulp)" using lo by (rule round_even_ge_int)
  have "\<bar>real_of_int (round_even (t / ulp))\<bar> \<le> of_int N"
    using r1 r2 by linarith
  then have "\<bar>v\<bar> \<le> of_int N * ulp"
    using ulp_pos by (simp add: v_def abs_mult mult_right_mono)
  then have vb: "\<bar>v\<bar> \<le> 2 ^ k" using split by simp
  have "(2::real) ^ k \<le> 2 ^ 127" using assms(2) by (intro power_increasing) simp_all
  also have "\<dots> \<le> float32_max" by (simp add: float32_max_def)
  finally have "\<not> \<bar>v\<bar> > float32_max" using vb by linarith
  then have "float32_round t = Fin v"
    using False by (simp add: float32_round_def Let_def e_def ulp_def v_def)
  with vb show ?thesis by blast
qed


lemma float32_round_power2:
  "float32_round (2 ^ k) = (if k \<le> 127 then Fin (2 ^ k) else PInf)"
proof -
  define ulp :: real where "ulp = 2 powi (int k - 23)"
  have ulp_pos: "0 < ulp" by (simp add: ulp_def)
  have e: "max (- 126) \<lfloor>log 2 \<bar>(2::real) ^ k\<bar>\<rfloor> = int k"
    by simp
  have "(2::real) ^ k = 2 powi (int k)" by simp
  also have "\<dots> = 2 powi (23 + (int k - 23))" by simp
  also have "\<dots> = 2 powi 23 * 2 powi (int k - 23)"
    by (rule power_int_add) simp
  finally have split: "(2::real) ^ k = of_int (2 ^ 23) * ulp"
    by (simp add: ulp_def)
  then have "(2::real) ^ k / ulp = of_int (2 ^ 23)"
    using ulp_pos by (simp add: field_simps)
  then have "round_even (2 ^ k / ulp) = 2 ^ 23"
    using round_even_of_int [of "2 ^ 23"] by simp
  then have v: "of_int (round_even (2 ^ k / ulp)) * ulp = (2::real) ^ k"
    using split by simp
  have "float32_round (2 ^ k)
          = (if \<bar>(2::real) ^ k\<bar> > float32_max then PInf else Fin (2 ^ k))"
    using v by (simp add: float32_round_def Let_def e ulp_def del: of_int_power of_int_numeral)
  also have "\<dots> = (if k \<le> 127 then Fin (2 ^ k) else PInf)"
  proof (cases "k \<le> 127")
    case True
    then have "(2::real) ^ k \<le> 2 ^ 127" by (intro power_increasing) simp_all
    also have "\<dots> \<le> float32_max" by (simp add: float32_max_def)
    finally show ?thesis using True by simp
  next
    case False
    then have "128 \<le> k" by simp
    then have "(2::real) ^ 128 \<le> 2 ^ k" by (intro power_increasing) simp_all
    moreover have "float32_max < (2::real) ^ 128" by (simp add: float32_max_def)
    ultimately show ?thesis using False by simp
  qed
  finally show ?thesis .
qed

lemma float32_round_zero [simp]: "float32_round 0 = Fin 0"
  by (simp add: float32_round_def)

lemma float32_round_four: "float32_round 4 = Fin 4"
  using float32_round_power2 [of 2] by simp

lemma float32_round_overflow: "float32_round (2 ^ 127 * 2) = PInf"
  using float32_round_power2 [of 128] by simp

lemma Linear_forward_nn_Linear:
  "length x = n \<Longrightarrow>
   Linear_forward (nn_Linear n m w b) x
     = Inr (map (\<lambda>i. fl_add (dot (map (w i) [0..<n]) x) (b i)) [0..<m])"
  by (simp add: Linear_forward_def nn_Linear_def zip_map_map zip_same_conv_map)

lemma a2c_Sequential_forward:
  "length x = n_obs \<Longrightarrow>
   \<exists>z. Sequential_forward (a2c_Sequential n_obs n_act W B) x = Inr z \<and> length z = n_act"
  by (simp add: a2c_Sequential_def Linear_forward_nn_Linear then_apply_def)

lemma tanh32_range:
  "v \<noteq> NaN \<Longrightarrow> \<exists>t. tanh32 v = Fin t \<and> \<bar>t\<bar> \<le> 1"
proof (cases v)
  case (Fin x)
  have "\<bar>tanh x\<bar> \<le> 2 ^ 0"
    using tanh_real_lt_1 [of x] tanh_real_gt_neg1 [of x] by simp
  then show ?thesis
    using float32_round_within [of "tanh x" 0] Fin by simp
qed simp_all

lemma scaled_tanh32:
  assumes "v \<noteq> NaN"
  shows "\<exists>u. fl_mul (Fin 2) (tanh32 v) = Fin u \<and> - 2 \<le> u \<and> u \<le> 2"
proof -
  obtain t where t: "tanh32 v = Fin t" and tb: "\<bar>t\<bar> \<le> 1"
    using tanh32_range [OF assms] by blast
  have "\<bar>2 * t\<bar> \<le> 2 ^ 1" using tb by simp
  then obtain u where "float32_round (2 * t) = Fin u" and "\<bar>u\<bar> \<le> 2 ^ 1"
    using float32_round_within [of "2 * t" 1] by auto
  then show ?thesis using t by (auto simp: abs_le_iff)
qed

lemma scaled_tanh32_NaN: "fl_mul (Fin 2) (tanh32 v) = NaN \<longleftrightarrow> v = NaN"
proof (cases "v = NaN")
  case True
  then show ?thesis by simp
next
  case False
  then show ?thesis using scaled_tanh32 [OF False] by auto
qed

lemma in_bounds_replicate:
  "in_bounds \<lparr>low = replicate (length a) lo, high = replicate (length a) hi\<rparr> a
     \<longleftrightarrow> (\<forall>v \<in> set a. between lo v hi)"
proof (induction a)
  case Nil
  then show ?case by (simp add: in_bounds_def)
next
  case (Cons v a)
  then show ?case by (auto simp: in_bounds_def)
qed

lemma foldl_fl_add_zero:
  "foldl fl_add (Fin 0) (map (\<lambda>p. Fin 0) ps) = Fin 0"
  by (induction ps) simp_all

lemma zero_times_finite:
  "list_all (\<lambda>v. \<exists>u. v = Fin u) x \<Longrightarrow>
   map2 fl_mul (map (\<lambda>j. Fin 0) js) x = map (\<lambda>p. Fin 0) (zip js x)"
proof (induction js arbitrary: x)
  case Nil
  then show ?case by simp
next
  case (Cons j js)
  then show ?case by (cases x) auto
qed

lemma dot_zero_row:
  "list_all (\<lambda>v. \<exists>u. v = Fin u) x \<Longrightarrow> dot (map (\<lambda>j. Fin 0) js) x = Fin 0"
  by (simp add: dot_def zero_times_finite foldl_fl_add_zero)

lemma foldl_fl_add_NaN: "foldl fl_add NaN xs = NaN"
  by (induction xs) simp_all

lemma fl_add_NaN_right [simp]: "fl_add x NaN = NaN"
  by (cases x) simp_all

lemma fl_mul_NaN_right [simp]: "fl_mul x NaN = NaN"
  by (cases x) simp_all

lemma dot_zero_row_infinite:
  "0 < n \<Longrightarrow> dot (map (\<lambda>j. Fin 0) [0..<n]) (map (\<lambda>i. PInf) [0..<n]) = NaN"
proof -
  assume "0 < n"
  then obtain k where n: "n = Suc k" by (cases n) auto
  have "map2 fl_mul (map (\<lambda>j. Fin 0) [0..<n]) (map (\<lambda>i. PInf) [0..<n])
          = map (\<lambda>i. NaN) [0..<n]"
    by (simp add: zip_map_map zip_same_conv_map)
  also have "\<dots> = NaN # map (\<lambda>i. NaN) [1..<Suc k]"
    by (simp add: n upt_conv_Cons)
  finally show ?thesis
    by (simp add: dot_def foldl_fl_add_NaN)
qed

lemma dot_zero_row_NaN:
  "0 < n \<Longrightarrow> dot (map (\<lambda>j. Fin 0) [0..<n]) (map (\<lambda>i. NaN) [0..<n]) = NaN"
proof -
  assume "0 < n"
  then obtain k where n: "n = Suc k" by (cases n) auto
  have "map2 fl_mul (map (\<lambda>j. Fin 0) [0..<n]) (map (\<lambda>i. NaN) [0..<n])
          = map (\<lambda>i. NaN) [0..<n]"
    by (simp add: zip_map_map zip_same_conv_map)
  also have "\<dots> = NaN # map (\<lambda>i. NaN) [1..<Suc k]"
    by (simp add: n upt_conv_Cons)
  finally show ?thesis
    by (simp add: dot_def foldl_fl_add_NaN)
qed

lemma Linear_forward_zero_weight:
  "length x = n \<Longrightarrow> list_all (\<lambda>v. \<exists>u. v = Fin u) x \<Longrightarrow>
   Linear_forward (nn_Linear n m (\<lambda>i j. Fin 0) b) x = Inr (map (\<lambda>i. fl_add (Fin 0) (b i)) [0..<m])"
  by (simp add: Linear_forward_nn_Linear dot_zero_row)

lemma all_finite_const: "list_all (\<lambda>v. \<exists>u. v = Fin u) (map (\<lambda>i. Fin c) js)"
  by (simp add: list_all_iff)

lemma zero_net_a2c:
  "Sequential_forward
     (a2c_Sequential 3 1 (\<lambda>k i j. Fin 0) (\<lambda>k i. if k = 2 then Fin 4 else Fin 0))
     [Fin 1, Fin 0, Fin 0] = Inr [Fin 4]"
proof -
  have l0: "Linear_forward (nn_Linear 3 64 (\<lambda>i j. Fin 0) (\<lambda>i. Fin 0)) [Fin 1, Fin 0, Fin 0]
              = Inr (map (\<lambda>i. Fin 0) [0..<64])"
    by (subst Linear_forward_zero_weight) simp_all
  have l1: "Linear_forward (nn_Linear 64 64 (\<lambda>i j. Fin 0) (\<lambda>i. Fin 0)) (map (\<lambda>i. Fin 0) [0..<64])
              = Inr (map (\<lambda>i. Fin 0) [0..<64])"
    by (subst Linear_forward_zero_weight) (simp_all add: all_finite_const)
  have l2: "Linear_forward (nn_Linear 64 1 (\<lambda>i j. Fin 0) (\<lambda>i. Fin 4)) (map (\<lambda>i. Fin 0) [0..<64])
              = Inr [Fin 4]"
    by (subst Linear_forward_zero_weight) (simp_all add: all_finite_const float32_round_four)
  show ?thesis
    by (simp add: a2c_Sequential_def then_apply_def l0 l1 l2 [unfolded One_nat_def] comp_def)
qed


lemma zero_net_trpo:
  "Sequential_forward
     (trpo_Sequential 4 1 (\<lambda>k i j. Fin 0) (\<lambda>k i. if k = 2 then Fin 4 else Fin 0))
     [Fin 0, Fin 0, Fin 0, Fin 0] = Inr [Fin 4]"
proof -
  have l0: "Linear_forward (nn_Linear 4 32 (\<lambda>i j. Fin 0) (\<lambda>i. Fin 0)) [Fin 0, Fin 0, Fin 0, Fin 0]
              = Inr (map (\<lambda>i. Fin 0) [0..<32])"
    by (subst Linear_forward_zero_weight) simp_all
  have l1: "Linear_forward (nn_Linear 32 32 (\<lambda>i j. Fin 0) (\<lambda>i. Fin 0)) (map (\<lambda>i. Fin 0) [0..<32])
              = Inr (map (\<lambda>i. Fin 0) [0..<32])"
    by (subst Linear_forward_zero_weight) (simp_all add: all_finite_const)
  have l2: "Linear_forward (nn_Linear 32 1 (\<lambda>i j. Fin 0) (\<lambda>i. Fin 4)) (map (\<lambda>i. Fin 0) [0..<32])
              = Inr [Fin 4]"
    by (subst Linear_forward_zero_weight) (simp_all add: all_finite_const float32_round_four)
  show ?thesis
    by (simp add: trpo_Sequential_def then_apply_def l0 l1 l2 [unfolded One_nat_def] comp_def)
qed

lemma overflow_row:
  "dot (map (\<lambda>j. Fin (2 ^ 127)) [0..<3]) [Fin 2, Fin 0, Fin 0] = PInf"
proof -
  have three: "[0..<3] = [0, 1, 2]"
    by (simp add: upt_rec)
  have m: "fl_mul (Fin (2 ^ 127)) (Fin 2) = PInf"
    using float32_round_overflow by simp
  have "map2 fl_mul (map (\<lambda>j. Fin (2 ^ 127)) [0..<3]) [Fin 2, Fin 0, Fin 0]
          = [PInf, Fin 0, Fin 0]"
    unfolding three using m by simp
  then show ?thesis
    by (simp add: dot_def)
qed

lemma overflow_net_a2c:
  "Sequential_forward
     (a2c_Sequential 3 1 (\<lambda>k i j. if k = 0 then Fin (2 ^ 127) else Fin 0) (\<lambda>k i. Fin 0))
     [Fin 2, Fin 0, Fin 0] = Inr [NaN]"
proof -
  have l0: "Linear_forward (nn_Linear 3 64 (\<lambda>i j. Fin (2 ^ 127)) (\<lambda>i. Fin 0)) [Fin 2, Fin 0, Fin 0]
              = Inr (map (\<lambda>i. PInf) [0..<64])"
    by (subst Linear_forward_nn_Linear) (simp_all add: overflow_row [simplified])
  have l1: "Linear_forward (nn_Linear 64 64 (\<lambda>i j. Fin 0) (\<lambda>i. Fin 0)) (map (\<lambda>i. PInf) [0..<64])
              = Inr (map (\<lambda>i. NaN) [0..<64])"
    by (subst Linear_forward_nn_Linear) (simp_all add: dot_zero_row_infinite)
  have l2: "Linear_forward (nn_Linear 64 1 (\<lambda>i j. Fin 0) (\<lambda>i. Fin 0)) (map (\<lambda>i. NaN) [0..<64])
              = Inr [NaN]"
    by (subst Linear_forward_nn_Linear) (simp_all add: dot_zero_row_NaN)
  show ?thesis
    by (simp add: a2c_Sequential_def then_apply_def l0 [simplified] l1 l2 [unfolded One_nat_def] comp_def)
qed



text \<open>
  Claim C1, as amended. The claim speaks of every policy model of the scripts and every
  finite input state. It holds for neither in full: the policy of the TRPO script
  returns the output of its network as it is, and the policy of the A2C script returns
  NaN where the arithmetic of the network has overflowed to NaN. As amended, for the
  policy of the A2C script: whatever float32 values the weights and biases of its
  network hold (\<open>W\<close>, \<open>B\<close>), and for every state vector with as many components as the
  observation space, \<open>compute\<close> returns; the mean action is the network output with
  \<open>2 * tanh\<close> applied to every component; a component of it is NaN exactly where the
  network output is NaN, and every other component is a finite value within [-2, 2],
  the bounds of Pendulum's action space. So the mean action lies within the action
  bounds whenever the network output holds no NaN.
\<close>

theorem a2c_Policy_compute_bounded:
  assumes "a2c_net self = a2c_Sequential (a2c_num_observations self) (a2c_num_actions self) W B"
    and "inputs ''states'' = Some states"
    and "length states = a2c_num_observations self"
  shows "\<exists>z. Sequential_forward (a2c_net self) states = Inr z
           \<and> length z = a2c_num_actions self
           \<and> a2c_Policy_compute self inputs role
               = Inr (map (\<lambda>v. fl_mul (Fin 2) (tanh32 v)) z, a2c_log_std_parameter self, Map.empty)
           \<and> (\<forall>v \<in> set z. (fl_mul (Fin 2) (tanh32 v) = NaN \<longleftrightarrow> v = NaN)
                 \<and> (v \<noteq> NaN \<longrightarrow> between (- 2) (fl_mul (Fin 2) (tanh32 v)) 2))
           \<and> (NaN \<notin> set z \<longrightarrow>
                 in_bounds \<lparr>low = replicate (a2c_num_actions self) (- 2),
                            high = replicate (a2c_num_actions self) 2\<rparr>
                   (map (\<lambda>v. fl_mul (Fin 2) (tanh32 v)) z))"
proof -
  obtain z where z: "Sequential_forward (a2c_net self) states = Inr z"
    and len: "length z = a2c_num_actions self"
    using a2c_Sequential_forward [OF assms(3)] assms(1) by metis
  have comp: "a2c_Policy_compute self inputs role
          = Inr (map (\<lambda>v. fl_mul (Fin 2) (tanh32 v)) z, a2c_log_std_parameter self, Map.empty)"
    by (simp add: a2c_Policy_compute_def assms(2) z then_apply_def)
  have squashed: "between (- 2) (fl_mul (Fin 2) (tanh32 v)) 2" if nn: "v \<noteq> NaN" for v
  proof -
    obtain u where "fl_mul (Fin 2) (tanh32 v) = Fin u" and "- 2 \<le> u" and "u \<le> 2"
      using scaled_tanh32 [OF nn] by blast
    then show ?thesis by simp
  qed
  have each: "\<forall>v \<in> set z. (fl_mul (Fin 2) (tanh32 v) = NaN \<longleftrightarrow> v = NaN)
                 \<and> (v \<noteq> NaN \<longrightarrow> between (- 2) (fl_mul (Fin 2) (tanh32 v)) 2)"
    using squashed scaled_tanh32_NaN by simp
  have bounds: "NaN \<notin> set z \<longrightarrow>
                 in_bounds \<lparr>low = replicate (a2c_num_actions self) (- 2),
                            high = replicate (a2c_num_actions self) 2\<rparr>
                   (map (\<lambda>v. fl_mul (Fin 2) (tanh32 v)) z)"
  proof
    assume clean: "NaN \<notin> set z"
    have "between (- 2) (fl_mul (Fin 2) (tanh32 v)) 2" if mem: "v \<in> set z" for v
      using mem clean squashed [of v] by metis
    then have "\<forall>a \<in> set (map (\<lambda>v. fl_mul (Fin 2) (tanh32 v)) z). between (- 2) a 2"
      by simp
    then have "in_bounds \<lparr>low = replicate (length (map (\<lambda>v. fl_mul (Fin 2) (tanh32 v)) z)) (- 2),
                          high = replicate (length (map (\<lambda>v. fl_mul (Fin 2) (tanh32 v)) z)) 2\<rparr>
                 (map (\<lambda>v. fl_mul (Fin 2) (tanh32 v)) z)"
      by (simp only: in_bounds_replicate)
    then show "in_bounds \<lparr>low = replicate (a2c_num_actions self) (- 2),
                            high = replicate (a2c_num_actions self) 2\<rparr>
                   (map (\<lambda>v. fl_mul (Fin 2) (tanh32 v)) z)"
      using len by simp
  qed
  show ?thesis
    using z len comp each bounds by (intro exI [of _ z] conjI)
qed

text \<open>
  The theorem at a concrete policy: the Pendulum spaces (three observations, one action
  in [-2, 2]), all weights zero and the bias of the last layer 4, the state (1, 0, 0).
  The network returns 4, which is outside the action bounds; the mean action is
  \<open>2 * tanh 4\<close> in float32, which is within them.
\<close>

theorem a2c_Policy_compute_bounded_witness:
  "Sequential_forward
     (a2c_net (a2c_Policy_init \<lparr>low = [- 1, - 1, - 8], high = [1, 1, 8]\<rparr>
        \<lparr>low = [- 2], high = [2]\<rparr> ''cpu''
        (\<lambda>k i j. Fin 0) (\<lambda>k i. if k = 2 then Fin 4 else Fin 0)))
     [Fin 1, Fin 0, Fin 0] = Inr [Fin 4]
   \<and> a2c_Policy_compute
       (a2c_Policy_init \<lparr>low = [- 1, - 1, - 8], high = [1, 1, 8]\<rparr>
          \<lparr>low = [- 2], high = [2]\<rparr> ''cpu''
          (\<lambda>k i j. Fin 0) (\<lambda>k i. if k = 2 then Fin 4 else Fin 0))
       [''states'' \<mapsto> [Fin 1, Fin 0, Fin 0]] ''policy''
       = Inr ([fl_mul (Fin 2) (tanh32 (Fin 4))], [Fin 0], Map.empty)
   \<and> in_bounds \<lparr>low = [- 2], high = [2]\<rparr> [fl_mul (Fin 2) (tanh32 (Fin 4))]
   \<and> \<not> in_bounds \<lparr>low = [- 2], high = [2]\<rparr> [Fin 4]"
proof -
  let ?W = "\<lambda>k i j. Fin 0 :: float32"
  let ?B = "\<lambda>k i. if k = 2 then Fin 4 else Fin 0 :: float32"
  let ?p = "a2c_Policy_init \<lparr>low = [- 1, - 1, - 8], high = [1, 1, 8]\<rparr>
        \<lparr>low = [- 2], high = [2]\<rparr> ''cpu'' ?W ?B"
  have net: "Sequential_forward (a2c_net ?p) [Fin 1, Fin 0, Fin 0] = Inr [Fin 4]"
    using zero_net_a2c [unfolded numeral_3_eq_3 One_nat_def]
    by (simp add: a2c_Policy_init_def space_size_def)
  have "\<exists>z. Sequential_forward (a2c_net ?p) [Fin 1, Fin 0, Fin 0] = Inr z
           \<and> length z = a2c_num_actions ?p
           \<and> a2c_Policy_compute ?p [''states'' \<mapsto> [Fin 1, Fin 0, Fin 0]] ''policy''
               = Inr (map (\<lambda>v. fl_mul (Fin 2) (tanh32 v)) z, a2c_log_std_parameter ?p, Map.empty)
           \<and> (\<forall>v \<in> set z. (fl_mul (Fin 2) (tanh32 v) = NaN \<longleftrightarrow> v = NaN)
                 \<and> (v \<noteq> NaN \<longrightarrow> between (- 2) (fl_mul (Fin 2) (tanh32 v)) 2))
           \<and> (NaN \<notin> set z \<longrightarrow>
                 in_bounds \<lparr>low = replicate (a2c_num_actions ?p) (- 2),
                            high = replicate (a2c_num_actions ?p) 2\<rparr>
                   (map (\<lambda>v. fl_mul (Fin 2) (tanh32 v)) z))"
    by (rule a2c_Policy_compute_bounded [where W = ?W and B = ?B])
       (simp_all add: a2c_Policy_init_def space_size_def)
  then obtain z where z: "Sequential_forward (a2c_net ?p) [Fin 1, Fin 0, Fin 0] = Inr z"
    and comp: "a2c_Policy_compute ?p [''states'' \<mapsto> [Fin 1, Fin 0, Fin 0]] ''policy''
               = Inr (map (\<lambda>v. fl_mul (Fin 2) (tanh32 v)) z, a2c_log_std_parameter ?p, Map.empty)"
    and bnd: "NaN \<notin> set z \<longrightarrow>
                 in_bounds \<lparr>low = replicate (a2c_num_actions ?p) (- 2),
                            high = replicate (a2c_num_actions ?p) 2\<rparr>
                   (map (\<lambda>v. fl_mul (Fin 2) (tanh32 v)) z)"
    by (elim exE conjE)
  have zeq: "z = [Fin 4]" using z net by simp
  have c: "a2c_Policy_compute ?p [''states'' \<mapsto> [Fin 1, Fin 0, Fin 0]] ''policy''
       = Inr ([fl_mul (Fin 2) (tanh32 (Fin 4))], [Fin 0], Map.empty)"
    using comp unfolding zeq by (simp add: a2c_Policy_init_def space_size_def)
  have b: "in_bounds \<lparr>low = [- 2], high = [2]\<rparr> [fl_mul (Fin 2) (tanh32 (Fin 4))]"
    using bnd unfolding zeq by (simp add: a2c_Policy_init_def space_size_def)
  have nb: "\<not> in_bounds \<lparr>low = [- 2], high = [2]\<rparr> [Fin 4]"
    by (simp add: in_bounds_def)
  show ?thesis
    using net c b nb by (intro conjI)
qed

text \<open>
  The claim as stated fails in two ways. On the TRPO policy, with four observations and
  one action declared in [-1, 1] (the bounds of the observation space play no role),
  all weights zero and the bias of the last layer 4, \<open>compute\<close> on the state
  (0, 0, 0, 0) returns the mean action 4: no tanh is applied and the action is outside
  the declared bounds. On the A2C policy, with every weight of the first layer
  \<open>2 ^ 127\<close> (a finite float32), all other parameters zero and the finite state
  (2, 0, 0), the first layer overflows to infinity, the zero weights of the second
  layer turn the infinities into NaN, and \<open>compute\<close> returns NaN, which is within no
  bounds.
\<close>

theorem policy_compute_out_of_bounds:
  "trpo_Policy_compute
     (trpo_Policy_init \<lparr>low = [- 1, - 1, - 1, - 1], high = [1, 1, 1, 1]\<rparr>
        \<lparr>low = [- 1], high = [1]\<rparr> ''cuda:0''
        (\<lambda>k i j. Fin 0) (\<lambda>k i. if k = 2 then Fin 4 else Fin 0))
     [Fin 0, Fin 0, Fin 0, Fin 0] [] = Inr ([Fin 4], [Fin 0])
   \<and> \<not> in_bounds \<lparr>low = [- 1], high = [1]\<rparr> [Fin 4]
   \<and> a2c_Policy_compute
       (a2c_Policy_init \<lparr>low = [- 1, - 1, - 8], high = [1, 1, 8]\<rparr>
          \<lparr>low = [- 2], high = [2]\<rparr> ''cpu''
          (\<lambda>k i j. if k = 0 then Fin (2 ^ 127) else Fin 0) (\<lambda>k i. Fin 0))
       [''states'' \<mapsto> [Fin 2, Fin 0, Fin 0]] ''policy''
       = Inr ([NaN], [Fin 0], Map.empty)
   \<and> \<not> in_bounds \<lparr>low = [- 2], high = [2]\<rparr> [NaN]"
proof -
  have four: "Suc (Suc (Suc (Suc 0))) = 4" by simp
  have t: "trpo_Policy_compute
     (trpo_Policy_init \<lparr>low = [- 1, - 1, - 1, - 1], high = [1, 1, 1, 1]\<rparr>
        \<lparr>low = [- 1], high = [1]\<rparr> ''cuda:0''
        (\<lambda>k i j. Fin 0) (\<lambda>k i. if k = 2 then Fin 4 else Fin 0))
     [Fin 0, Fin 0, Fin 0, Fin 0] [] = Inr ([Fin 4], [Fin 0])"
    using zero_net_trpo [folded four, unfolded One_nat_def]
    by (simp add: trpo_Policy_compute_def trpo_Policy_init_def space_size_def then_apply_def)
  have a: "a2c_Policy_compute
       (a2c_Policy_init \<lparr>low = [- 1, - 1, - 8], high = [1, 1, 8]\<rparr>
          \<lparr>low = [- 2], high = [2]\<rparr> ''cpu''
          (\<lambda>k i j. if k = 0 then Fin (2 ^ 127) else Fin 0) (\<lambda>k i. Fin 0))
       [''states'' \<mapsto> [Fin 2, Fin 0, Fin 0]] ''policy''
       = Inr ([NaN], [Fin 0], Map.empty)"
    using overflow_net_a2c [unfolded numeral_3_eq_3 One_nat_def]
    by (simp add: a2c_Policy_compute_def a2c_Policy_init_def space_size_def then_apply_def)
  have n1: "\<not> in_bounds \<lparr>low = [- 1], high = [1]\<rparr> [Fin 4]"
    by (simp add: in_bounds_def)
  have n2: "\<not> in_bounds \<lparr>low = [- 2], high = [2]\<rparr> [NaN]"
    by (simp add: in_bounds_def)
  show ?thesis
    using t n1 a n2 by (intro conjI)
qed

section \<open>Properties of the loader fallback\<close>

text \<open>
  Claim C3, as amended. The claim says that the secondary loader is invoked if and
  only if the primary loader raises an exception; the handler is
  \<^verbatim>\<open>except Exception\<close>, so this holds for what is raised within the class
  \<open>Exception\<close> and not for what is raised outside it. As amended: the preview 2
  loader is called if and only if the preview 3/4 loader raises an instance of
  \<open>Exception\<close>. When the primary loader succeeds, its result is the result, nothing is
  printed and the secondary loader is not called. When it raises an instance of
  \<open>Exception\<close> with text \<open>e\<close>, the line "Isaac Gym (preview 3/4) failed: ", then
  \<open>e\<close>, a newline and "Trying preview 2..." is printed, after that the secondary
  loader is called with the same task, and what the secondary loader returns or raises
  is the outcome, unchanged. When the primary loader raises outside \<open>Exception\<close>
  (KeyboardInterrupt, SystemExit), nothing is printed, the secondary loader is not
  called and the raise is the outcome.
\<close>

theorem load_env_fallback:
  "(Call Preview2 ''Cartpole'' \<in> set (snd (load_env p4 p2 []))
      \<longleftrightarrow> (\<exists>e. p4 ''Cartpole'' = Inl (Exception e)))
   \<and> (\<forall>loaded. p4 ''Cartpole'' = Inr loaded \<longrightarrow>
         load_env p4 p2 events = (Inr loaded, events @ [Call Preview4 ''Cartpole'']))
   \<and> (\<forall>e. p4 ''Cartpole'' = Inl (Exception e) \<longrightarrow>
         load_env p4 p2 events =
           (p2 ''Cartpole'',
            events @ [Call Preview4 ''Cartpole'',
                      Print (''Isaac Gym (preview 3/4) failed: '' @ e @ [CHR 0x0A]
                             @ ''Trying preview 2...''),
                      Call Preview2 ''Cartpole'']))
   \<and> (\<forall>b. p4 ''Cartpole'' = Inl (BaseException b) \<longrightarrow>
         load_env p4 p2 events = (Inl (BaseException b), events @ [Call Preview4 ''Cartpole'']))"
  by (auto simp: load_env_def failed_message_def split: sum.splits raised.splits)

text \<open>
  The theorem at concrete loaders: the primary raises an \<open>Exception\<close> with the text
  "no gym", the secondary raises one with the text "no preview 2". The line printed
  between the two calls carries the text of the first error, and the failure of the
  secondary loader is the outcome.
\<close>

theorem load_env_fallback_witness:
  "load_env (\<lambda>task. Inl (Exception ''no gym'')) (\<lambda>task. Inl (Exception ''no preview 2'')) []
     = (Inl (Exception ''no preview 2'') :: raised + nat,
        [Call Preview4 ''Cartpole'',
         Print (''Isaac Gym (preview 3/4) failed: no gym'' @ [CHR 0x0A] @ ''Trying preview 2...''),
         Call Preview2 ''Cartpole''])
   \<and> Call Preview2 ''Cartpole''
       \<in> set (snd (load_env (\<lambda>task. Inl (Exception ''no gym''))
                     (\<lambda>task. Inl (Exception ''no preview 2'') :: raised + nat) []))"
  using load_env_fallback [of "\<lambda>task. Inl (Exception ''no gym'')"
      "\<lambda>task. Inl (Exception ''no preview 2'') :: raised + nat" "[]"]
  by simp

text \<open>
  The claim as stated fails when the primary loader raises outside \<open>Exception\<close>: with
  a primary loader interrupted from the keyboard and a secondary loader that would
  succeed, the primary has raised, yet nothing is printed, the secondary loader is not
  called and the interrupt is the outcome.
\<close>

theorem load_env_interrupt_no_retry:
  "load_env (\<lambda>task. Inl (BaseException ''KeyboardInterrupt'')) (\<lambda>task. Inr (0::nat)) []
     = (Inl (BaseException ''KeyboardInterrupt''), [Call Preview4 ''Cartpole''])
   \<and> Call Preview2 ''Cartpole''
       \<notin> set (snd (load_env (\<lambda>task. Inl (BaseException ''KeyboardInterrupt''))
                     (\<lambda>task. Inr (0::nat)) []))"
  by (simp add: load_env_def)

section \<open>Properties of the configuration dictionaries\<close>

text \<open>
  The library's default configuration is not part of the examined sources; it is any
  dict of the store (at address \<open>dflt\<close>, with entries \<open>d\<close>) whose entry
  \<^verbatim>\<open>"experiment"\<close> refers to another dict (at \<open>e\<close>, with entries \<open>ex\<close>). Under
  that assumption the scripts' configuration code runs without raising, and the store
  it leaves is computed entry by entry.
\<close>

lemma store_ok_lt: "store_ok st \<Longrightarrow> dicts st a = Some m \<Longrightarrow> a < fresh st"
  by (auto simp: store_ok_def)

lemma a2c_configure_result:
  assumes "dicts st dflt = Some d" "d ''experiment'' = Some (Ref e)" "dicts st e = Some ex"
    "e \<noteq> dflt" "store_ok st"
  shows "a2c_configure dflt obs dev st =
     Inr (Ref (fresh st),
         st\<lparr>fresh := Suc (Suc (Suc (Suc (fresh st)))),
              dicts :=
                (dicts st)
                (Suc (fresh st) \<mapsto>
                   [''kl_threshold'' \<mapsto> PyFloat (1 / 125),
                    ''min_lr'' \<mapsto> PyFloat (1 / 2000)],
                   Suc (Suc (fresh st)) \<mapsto> [''size'' \<mapsto> obs, ''device'' \<mapsto> dev],
                   Suc (Suc (Suc (fresh st))) \<mapsto>
                   [''size'' \<mapsto> PyInt 1, ''device'' \<mapsto> dev],
                   fresh st \<mapsto>
                   d(''rollouts'' \<mapsto> PyInt 1024,
                       ''learning_epochs'' \<mapsto> PyInt 10,
                       ''mini_batches'' \<mapsto> PyInt 32,
                       ''discount_factor'' \<mapsto> PyFloat (9 / 10),
                       ''lambda'' \<mapsto> PyFloat (19 / 20),
                       ''learning_rate'' \<mapsto> PyFloat (1 / 1000),
                       ''learning_rate_scheduler'' \<mapsto> Obj ''KLAdaptiveRL'',
                       ''learning_rate_scheduler_kwargs'' \<mapsto>
                       Ref (Suc (fresh st)), ''random_timesteps'' \<mapsto> PyInt 0,
                       ''learning_starts'' \<mapsto> PyInt 0,
                       ''grad_norm_clip'' \<mapsto> PyFloat (1 / 2),
                       ''entropy_loss_scale'' \<mapsto> PyFloat 0,
                       ''state_preprocessor'' \<mapsto>
                       Obj ''RunningStandardScaler'',
                       ''state_preprocessor_kwargs'' \<mapsto>
                       Ref (Suc (Suc (fresh st))),
                       ''value_preprocessor'' \<mapsto>
                       Obj ''RunningStandardScaler'',
                       ''value_preprocessor_kwargs'' \<mapsto>
                       Ref (Suc (Suc (Suc (fresh st))))),
                   e \<mapsto>
                   ex(''write_interval'' \<mapsto> PyInt 500,
                        ''checkpoint_interval'' \<mapsto> PyInt 5000))\<rparr>)"
proof -
  have lt: "dflt < fresh st" "e < fresh st"
    using assms store_ok_lt by blast+
  show ?thesis
    using assms(1-4) lt
    by (simp add: a2c_configure_def dict_copy_def a2c_overrides_def setitem_def
        setitem_literal_def setitem2_def getitem_def dict_literal_def then_apply_def)
qed

lemma trpo_configure_result:
  assumes "dicts st dflt = Some d" "d ''experiment'' = Some (Ref e)" "dicts st e = Some ex"
    "e \<noteq> dflt" "store_ok st"
  shows "trpo_configure dflt obs dev st =
     Inr (Ref (fresh st),
         st\<lparr>fresh := Suc (Suc (Suc (fresh st))),
              dicts :=
                (dicts st)
                (Suc (fresh st) \<mapsto> [''size'' \<mapsto> obs, ''device'' \<mapsto> dev],
                   Suc (Suc (fresh st)) \<mapsto>
                   [''size'' \<mapsto> PyInt 1, ''device'' \<mapsto> dev],
                   fresh st \<mapsto>
                   d(''rollouts'' \<mapsto> PyInt 16, ''learning_epochs'' \<mapsto> PyInt 6,
                       ''mini_batches'' \<mapsto> PyInt 2,
                       ''grad_norm_clip'' \<mapsto> PyFloat (1 / 2),
                       ''value_loss_scale'' \<mapsto> PyFloat 2,
                       ''lambda'' \<mapsto> PyFloat (19 / 20),
                       ''state_preprocessor'' \<mapsto>
                       Obj ''RunningStandardScaler'',
                       ''state_preprocessor_kwargs'' \<mapsto> Ref (Suc (fresh st)),
                       ''value_preprocessor'' \<mapsto>
                       Obj ''RunningStandardScaler'',
                       ''value_preprocessor_kwargs'' \<mapsto>
                       Ref (Suc (Suc (fresh st)))),
                   e \<mapsto>
                   ex(''write_interval'' \<mapsto> PyInt 16,
                        ''checkpoint_interval'' \<mapsto> PyInt 125))\<rparr>)"
proof -
  have lt: "dflt < fresh st" "e < fresh st"
    using assms store_ok_lt by blast+
  show ?thesis
    using assms(1-4) lt
    by (simp add: trpo_configure_def dict_copy_def trpo_overrides_def setitem_def
        setitem_literal_def setitem2_def getitem_def dict_literal_def then_apply_def)
qed


lemma a2c_configure_dicts:
  assumes "dicts st dflt = Some d" "d ''experiment'' = Some (Ref e)" "dicts st e = Some ex"
    "e \<noteq> dflt" "store_ok st"
  shows "\<exists>st'. a2c_configure dflt obs dev st = Inr (Ref (fresh st), st')
     \<and> dicts st' (fresh st) = Some (d(''rollouts'' \<mapsto> PyInt 1024,
                       ''learning_epochs'' \<mapsto> PyInt 10,
                       ''mini_batches'' \<mapsto> PyInt 32,
                       ''discount_factor'' \<mapsto> PyFloat (9 / 10),
                       ''lambda'' \<mapsto> PyFloat (19 / 20),
                       ''learning_rate'' \<mapsto> PyFloat (1 / 1000),
                       ''learning_rate_scheduler'' \<mapsto> Obj ''KLAdaptiveRL'',
                       ''learning_rate_scheduler_kwargs'' \<mapsto>
                       Ref (Suc (fresh st)), ''random_timesteps'' \<mapsto> PyInt 0,
                       ''learning_starts'' \<mapsto> PyInt 0,
                       ''grad_norm_clip'' \<mapsto> PyFloat (1 / 2),
                       ''entropy_loss_scale'' \<mapsto> PyFloat 0,
                       ''state_preprocessor'' \<mapsto>
                       Obj ''RunningStandardScaler'',
                       ''state_preprocessor_kwargs'' \<mapsto>
                       Ref (Suc (Suc (fresh st))),
                       ''value_preprocessor'' \<mapsto>
                       Obj ''RunningStandardScaler'',
                       ''value_preprocessor_kwargs'' \<mapsto>
                       Ref (Suc (Suc (Suc (fresh st))))))
     \<and> dicts st' (Suc (fresh st)) =
           Some [''kl_threshold'' \<mapsto> PyFloat (1 / 125), ''min_lr'' \<mapsto> PyFloat (1 / 2000)]
     \<and> dicts st' (Suc (Suc (fresh st))) = Some [''size'' \<mapsto> obs, ''device'' \<mapsto> dev]
     \<and> dicts st' (Suc (Suc (Suc (fresh st)))) = Some [''size'' \<mapsto> PyInt 1, ''device'' \<mapsto> dev]
     \<and> dicts st' e =
           Some (ex(''write_interval'' \<mapsto> PyInt 500, ''checkpoint_interval'' \<mapsto> PyInt 5000))
     \<and> dicts st' dflt = Some d"
proof -
  have lt: "dflt < fresh st" "e < fresh st"
    using assms store_ok_lt by blast+
  show ?thesis
    unfolding a2c_configure_result [OF assms]
    using lt assms(1,4) by simp
qed

lemma trpo_configure_dicts:
  assumes "dicts st dflt = Some d" "d ''experiment'' = Some (Ref e)" "dicts st e = Some ex"
    "e \<noteq> dflt" "store_ok st"
  shows "\<exists>st'. trpo_configure dflt obs dev st = Inr (Ref (fresh st), st')
     \<and> dicts st' (fresh st) = Some (d(''rollouts'' \<mapsto> PyInt 16, ''learning_epochs'' \<mapsto> PyInt 6,
                       ''mini_batches'' \<mapsto> PyInt 2,
                       ''grad_norm_clip'' \<mapsto> PyFloat (1 / 2),
                       ''value_loss_scale'' \<mapsto> PyFloat 2,
                       ''lambda'' \<mapsto> PyFloat (19 / 20),
                       ''state_preprocessor'' \<mapsto>
                       Obj ''RunningStandardScaler'',
                       ''state_preprocessor_kwargs'' \<mapsto> Ref (Suc (fresh st)),
                       ''value_preprocessor'' \<mapsto>
                       Obj ''RunningStandardScaler'',
                       ''value_preprocessor_kwargs'' \<mapsto>
                       Ref (Suc (Suc (fresh st)))))
     \<and> dicts st' (Suc (fresh st)) = Some [''size'' \<mapsto> obs, ''device'' \<mapsto> dev]
     \<and> dicts st' (Suc (Suc (fresh st))) = Some [''size'' \<mapsto> PyInt 1, ''device'' \<mapsto> dev]
     \<and> dicts st' e =
           Some (ex(''write_interval'' \<mapsto> PyInt 16, ''checkpoint_interval'' \<mapsto> PyInt 125))
     \<and> dicts st' dflt = Some d"
proof -
  have lt: "dflt < fresh st" "e < fresh st"
    using assms store_ok_lt by blast+
  show ?thesis
    unfolding trpo_configure_result [OF assms]
    using lt assms(1,4) by simp
qed

text \<open>
  Claim C4. After a script has copied the default configuration and assigned its
  overrides, every key the script assigned holds the script's value (for A2C
  rollouts = 1024, discount_factor = 0.9 and the others of lines 83 to 101; for TRPO
  rollouts = 16, value_loss_scale = 2.0 and the others of lines 86 to 98; the keyword
  dicts hold the entries of their displays; the two intervals are in the dict under
  \<^verbatim>\<open>"experiment"\<close>), and every key the script did not assign, at the top level
  and in the dict under \<^verbatim>\<open>"experiment"\<close>, holds the value the default held before.
\<close>

theorem configure_keeps_overrides_and_defaults:
  assumes "store_ok st" and "dicts st dflt = Some d" and "d ''experiment'' = Some (Ref e)"
    and "dicts st e = Some ex" and "e \<noteq> dflt"
  shows "(\<exists>cfg st'. a2c_configure dflt obs dev st = Inr (cfg, st')
          \<and> list_all (\<lambda>(k, v). lookup cfg k st' = Some v)
               [(''rollouts'', PyInt 1024), (''learning_epochs'', PyInt 10),
                (''mini_batches'', PyInt 32), (''discount_factor'', PyFloat 0.9),
                (''lambda'', PyFloat 0.95), (''learning_rate'', PyFloat 0.001),
                (''learning_rate_scheduler'', Obj ''KLAdaptiveRL''),
                (''random_timesteps'', PyInt 0), (''learning_starts'', PyInt 0),
                (''grad_norm_clip'', PyFloat 0.5), (''entropy_loss_scale'', PyFloat 0.0),
                (''state_preprocessor'', Obj ''RunningStandardScaler''),
                (''value_preprocessor'', Obj ''RunningStandardScaler'')]
          \<and> list_all (\<lambda>(k1, k2, v). lookup2 cfg k1 k2 st' = Some v)
               [(''learning_rate_scheduler_kwargs'', ''kl_threshold'', PyFloat 0.008),
                (''learning_rate_scheduler_kwargs'', ''min_lr'', PyFloat 0.0005),
                (''state_preprocessor_kwargs'', ''size'', obs),
                (''state_preprocessor_kwargs'', ''device'', dev),
                (''value_preprocessor_kwargs'', ''size'', PyInt 1),
                (''value_preprocessor_kwargs'', ''device'', dev),
                (''experiment'', ''write_interval'', PyInt 500),
                (''experiment'', ''checkpoint_interval'', PyInt 5000)]
          \<and> (\<forall>k. k \<notin> set a2c_assigned \<longrightarrow> lookup cfg k st' = lookup (Ref dflt) k st)
          \<and> (\<forall>k. k \<noteq> ''write_interval'' \<and> k \<noteq> ''checkpoint_interval'' \<longrightarrow>
                 lookup2 cfg ''experiment'' k st' = lookup2 (Ref dflt) ''experiment'' k st))
       \<and> (\<exists>cfg st'. trpo_configure dflt obs dev st = Inr (cfg, st')
          \<and> list_all (\<lambda>(k, v). lookup cfg k st' = Some v)
               [(''rollouts'', PyInt 16), (''learning_epochs'', PyInt 6),
                (''mini_batches'', PyInt 2), (''grad_norm_clip'', PyFloat 0.5),
                (''value_loss_scale'', PyFloat 2.0), (''lambda'', PyFloat 0.95),
                (''state_preprocessor'', Obj ''RunningStandardScaler''),
                (''value_preprocessor'', Obj ''RunningStandardScaler'')]
          \<and> list_all (\<lambda>(k1, k2, v). lookup2 cfg k1 k2 st' = Some v)
               [(''state_preprocessor_kwargs'', ''size'', obs),
                (''state_preprocessor_kwargs'', ''device'', dev),
                (''value_preprocessor_kwargs'', ''size'', PyInt 1),
                (''value_preprocessor_kwargs'', ''device'', dev),
                (''experiment'', ''write_interval'', PyInt 16),
                (''experiment'', ''checkpoint_interval'', PyInt 125)]
          \<and> (\<forall>k. k \<notin> set trpo_assigned \<longrightarrow> lookup cfg k st' = lookup (Ref dflt) k st)
          \<and> (\<forall>k. k \<noteq> ''write_interval'' \<and> k \<noteq> ''checkpoint_interval'' \<longrightarrow>
                 lookup2 cfg ''experiment'' k st' = lookup2 (Ref dflt) ''experiment'' k st))"
    (is "(\<exists>cfg st'. ?A cfg st') \<and> (\<exists>cfg st'. ?T cfg st')")
proof (rule conjI)
  obtain st' where res: "a2c_configure dflt obs dev st = Inr (Ref (fresh st), st')"
    and c: "dicts st' (fresh st) = Some (d(''rollouts'' \<mapsto> PyInt 1024,
                       ''learning_epochs'' \<mapsto> PyInt 10,
                       ''mini_batches'' \<mapsto> PyInt 32,
                       ''discount_factor'' \<mapsto> PyFloat (9 / 10),
                       ''lambda'' \<mapsto> PyFloat (19 / 20),
                       ''learning_rate'' \<mapsto> PyFloat (1 / 1000),
                       ''learning_rate_scheduler'' \<mapsto> Obj ''KLAdaptiveRL'',
                       ''learning_rate_scheduler_kwargs'' \<mapsto>
                       Ref (Suc (fresh st)), ''random_timesteps'' \<mapsto> PyInt 0,
                       ''learning_starts'' \<mapsto> PyInt 0,
                       ''grad_norm_clip'' \<mapsto> PyFloat (1 / 2),
                       ''entropy_loss_scale'' \<mapsto> PyFloat 0,
                       ''state_preprocessor'' \<mapsto>
                       Obj ''RunningStandardScaler'',
                       ''state_preprocessor_kwargs'' \<mapsto>
                       Ref (Suc (Suc (fresh st))),
                       ''value_preprocessor'' \<mapsto>
                       Obj ''RunningStandardScaler'',
                       ''value_preprocessor_kwargs'' \<mapsto>
                       Ref (Suc (Suc (Suc (fresh st))))))"
    and k1: "dicts st' (Suc (fresh st)) =
           Some [''kl_threshold'' \<mapsto> PyFloat (1 / 125), ''min_lr'' \<mapsto> PyFloat (1 / 2000)]"
    and k2: "dicts st' (Suc (Suc (fresh st))) = Some [''size'' \<mapsto> obs, ''device'' \<mapsto> dev]"
    and k3: "dicts st' (Suc (Suc (Suc (fresh st)))) = Some [''size'' \<mapsto> PyInt 1, ''device'' \<mapsto> dev]"
    and ex: "dicts st' e =
           Some (ex(''write_interval'' \<mapsto> PyInt 500, ''checkpoint_interval'' \<mapsto> PyInt 5000))"
    using a2c_configure_dicts [OF assms(2,3,4,5,1), of obs dev] by blast
  have scalars: "list_all (\<lambda>(k, v). lookup (Ref (fresh st)) k st' = Some v)
               [(''rollouts'', PyInt 1024), (''learning_epochs'', PyInt 10),
                (''mini_batches'', PyInt 32), (''discount_factor'', PyFloat 0.9),
                (''lambda'', PyFloat 0.95), (''learning_rate'', PyFloat 0.001),
                (''learning_rate_scheduler'', Obj ''KLAdaptiveRL''),
                (''random_timesteps'', PyInt 0), (''learning_starts'', PyInt 0),
                (''grad_norm_clip'', PyFloat 0.5), (''entropy_loss_scale'', PyFloat 0.0),
                (''state_preprocessor'', Obj ''RunningStandardScaler''),
                (''value_preprocessor'', Obj ''RunningStandardScaler'')]"
    by (simp add: lookup_def getitem_def c)
  have nested: "list_all (\<lambda>(k1, k2, v). lookup2 (Ref (fresh st)) k1 k2 st' = Some v)
               [(''learning_rate_scheduler_kwargs'', ''kl_threshold'', PyFloat 0.008),
                (''learning_rate_scheduler_kwargs'', ''min_lr'', PyFloat 0.0005),
                (''state_preprocessor_kwargs'', ''size'', obs),
                (''state_preprocessor_kwargs'', ''device'', dev),
                (''value_preprocessor_kwargs'', ''size'', PyInt 1),
                (''value_preprocessor_kwargs'', ''device'', dev),
                (''experiment'', ''write_interval'', PyInt 500),
                (''experiment'', ''checkpoint_interval'', PyInt 5000)]"
    by (simp add: lookup2_def lookup_def getitem_def c k1 k2 k3 ex assms(3))
  have frame: "\<forall>k. k \<notin> set a2c_assigned \<longrightarrow>
                 lookup (Ref (fresh st)) k st' = lookup (Ref dflt) k st"
    by (simp add: a2c_assigned_def lookup_def getitem_def c assms(2))
  have inner: "\<forall>k. k \<noteq> ''write_interval'' \<and> k \<noteq> ''checkpoint_interval'' \<longrightarrow>
                 lookup2 (Ref (fresh st)) ''experiment'' k st'
                   = lookup2 (Ref dflt) ''experiment'' k st"
    by (simp add: lookup2_def lookup_def getitem_def c ex assms(2,3,4))
  show "\<exists>cfg st'. ?A cfg st'"
    using res scalars nested frame inner by blast
next
  obtain st' where res: "trpo_configure dflt obs dev st = Inr (Ref (fresh st), st')"
    and c: "dicts st' (fresh st) = Some (d(''rollouts'' \<mapsto> PyInt 16, ''learning_epochs'' \<mapsto> PyInt 6,
                       ''mini_batches'' \<mapsto> PyInt 2,
                       ''grad_norm_clip'' \<mapsto> PyFloat (1 / 2),
                       ''value_loss_scale'' \<mapsto> PyFloat 2,
                       ''lambda'' \<mapsto> PyFloat (19 / 20),
                       ''state_preprocessor'' \<mapsto>
                       Obj ''RunningStandardScaler'',
                       ''state_preprocessor_kwargs'' \<mapsto> Ref (Suc (fresh st)),
                       ''value_preprocessor'' \<mapsto>
                       Obj ''RunningStandardScaler'',
                       ''value_preprocessor_kwargs'' \<mapsto>
                       Ref (Suc (Suc (fresh st)))))"
    and k2: "dicts st' (Suc (fresh st)) = Some [''size'' \<mapsto> obs, ''device'' \<mapsto> dev]"
    and k3: "dicts st' (Suc (Suc (fresh st))) = Some [''size'' \<mapsto> PyInt 1, ''device'' \<mapsto> dev]"
    and ex: "dicts st' e =
           Some (ex(''write_interval'' \<mapsto> PyInt 16, ''checkpoint_interval'' \<mapsto> PyInt 125))"
    using trpo_configure_dicts [OF assms(2,3,4,5,1), of obs dev] by blast
  have scalars: "list_all (\<lambda>(k, v). lookup (Ref (fresh st)) k st' = Some v)
               [(''rollouts'', PyInt 16), (''learning_epochs'', PyInt 6),
                (''mini_batches'', PyInt 2), (''grad_norm_clip'', PyFloat 0.5),
                (''value_loss_scale'', PyFloat 2.0), (''lambda'', PyFloat 0.95),
                (''state_preprocessor'', Obj ''RunningStandardScaler''),
                (''value_preprocessor'', Obj ''RunningStandardScaler'')]"
    by (simp add: lookup_def getitem_def c)
  have nested: "list_all (\<lambda>(k1, k2, v). lookup2 (Ref (fresh st)) k1 k2 st' = Some v)
               [(''state_preprocessor_kwargs'', ''size'', obs),
                (''state_preprocessor_kwargs'', ''device'', dev),
                (''value_preprocessor_kwargs'', ''size'', PyInt 1),
                (''value_preprocessor_kwargs'', ''device'', dev),
                (''experiment'', ''write_interval'', PyInt 16),
                (''experiment'', ''checkpoint_interval'', PyInt 125)]"
    by (simp add: lookup2_def lookup_def getitem_def c k2 k3 ex assms(3))
  have frame: "\<forall>k. k \<notin> set trpo_assigned \<longrightarrow>
                 lookup (Ref (fresh st)) k st' = lookup (Ref dflt) k st"
    by (simp add: trpo_assigned_def lookup_def getitem_def c assms(2))
  have inner: "\<forall>k. k \<noteq> ''write_interval'' \<and> k \<noteq> ''checkpoint_interval'' \<longrightarrow>
                 lookup2 (Ref (fresh st)) ''experiment'' k st'
                   = lookup2 (Ref dflt) ''experiment'' k st"
    by (simp add: lookup2_def lookup_def getitem_def c ex assms(2,3,4))
  show "\<exists>cfg st'. ?T cfg st'"
    using res scalars nested frame inner by blast
qed

text \<open>
  The theorem at a concrete store: a default with rollouts = 1024, discount_factor =
  0.99 and an experiment dict with write_interval = 250 and directory = "runs". After
  the TRPO configuration the overrides are in place and the two entries the script does
  not assign are as they were.
\<close>

theorem configure_keeps_overrides_and_defaults_witness:
  "\<exists>cfg st'.
      trpo_configure 0 (Obj ''observation_space'') (Obj ''cuda:0'')
        \<lparr>dicts = [0 \<mapsto> [''rollouts'' \<mapsto> PyInt 1024, ''discount_factor'' \<mapsto> PyFloat 0.99,
                         ''experiment'' \<mapsto> Ref 1],
                  1 \<mapsto> [''write_interval'' \<mapsto> PyInt 250, ''directory'' \<mapsto> PyStr ''runs'']],
         fresh = 2\<rparr> = Inr (cfg, st')
    \<and> lookup cfg ''rollouts'' st' = Some (PyInt 16)
    \<and> lookup cfg ''value_loss_scale'' st' = Some (PyFloat 2.0)
    \<and> lookup cfg ''discount_factor'' st' = Some (PyFloat 0.99)
    \<and> lookup2 cfg ''experiment'' ''write_interval'' st' = Some (PyInt 16)
    \<and> lookup2 cfg ''experiment'' ''directory'' st' = Some (PyStr ''runs'')"
proof -
  let ?st = "\<lparr>dicts = [0 \<mapsto> [''rollouts'' \<mapsto> PyInt 1024, ''discount_factor'' \<mapsto> PyFloat 0.99,
                         ''experiment'' \<mapsto> Ref 1],
                  1 \<mapsto> [''write_interval'' \<mapsto> PyInt 250, ''directory'' \<mapsto> PyStr ''runs'']],
         fresh = 2\<rparr>"
  have ok: "store_ok ?st"
    by (auto simp: store_ok_def split: if_splits)
  have d0: "dicts ?st 0 = Some [''rollouts'' \<mapsto> PyInt 1024, ''discount_factor'' \<mapsto> PyFloat 0.99,
                         ''experiment'' \<mapsto> Ref 1]"
    by simp
  have e0: "[''rollouts'' \<mapsto> PyInt 1024, ''discount_factor'' \<mapsto> PyFloat 0.99,
                         ''experiment'' \<mapsto> Ref 1] ''experiment'' = Some (Ref 1)"
    by simp
  have d1: "dicts ?st 1 = Some [''write_interval'' \<mapsto> PyInt 250, ''directory'' \<mapsto> PyStr ''runs'']"
    by simp
  have ne: "(1::nat) \<noteq> 0" by simp
  have before: "lookup (Ref 0) ''discount_factor'' ?st = Some (PyFloat 0.99)"
      "lookup2 (Ref 0) ''experiment'' ''directory'' ?st = Some (PyStr ''runs'')"
    by (simp_all add: lookup2_def lookup_def getitem_def)
  have unassigned: "''discount_factor'' \<notin> set trpo_assigned"
    by (simp add: trpo_assigned_def)
  have other: "''directory'' \<noteq> ''write_interval'' \<and> ''directory'' \<noteq> ''checkpoint_interval''"
    by simp
  have "\<exists>cfg st'. trpo_configure 0 (Obj ''observation_space'') (Obj ''cuda:0'') ?st = Inr (cfg, st')
      \<and> list_all (\<lambda>(k, v). lookup cfg k st' = Some v)
               [(''rollouts'', PyInt 16), (''learning_epochs'', PyInt 6),
                (''mini_batches'', PyInt 2), (''grad_norm_clip'', PyFloat 0.5),
                (''value_loss_scale'', PyFloat 2.0), (''lambda'', PyFloat 0.95),
                (''state_preprocessor'', Obj ''RunningStandardScaler''),
                (''value_preprocessor'', Obj ''RunningStandardScaler'')]
      \<and> list_all (\<lambda>(k1, k2, v). lookup2 cfg k1 k2 st' = Some v)
               [(''state_preprocessor_kwargs'', ''size'', Obj ''observation_space''),
                (''state_preprocessor_kwargs'', ''device'', Obj ''cuda:0''),
                (''value_preprocessor_kwargs'', ''size'', PyInt 1),
                (''value_preprocessor_kwargs'', ''device'', Obj ''cuda:0''),
                (''experiment'', ''write_interval'', PyInt 16),
                (''experiment'', ''checkpoint_interval'', PyInt 125)]
      \<and> (\<forall>k. k \<notin> set trpo_assigned \<longrightarrow> lookup cfg k st' = lookup (Ref 0) k ?st)
      \<and> (\<forall>k. k \<noteq> ''write_interval'' \<and> k \<noteq> ''checkpoint_interval'' \<longrightarrow>
                 lookup2 cfg ''experiment'' k st' = lookup2 (Ref 0) ''experiment'' k ?st)"
    by (rule conjunct2 [OF configure_keeps_overrides_and_defaults [OF ok d0 e0 d1 ne,
      of "Obj ''observation_space''" "Obj ''cuda:0''"]])
  then obtain cfg st' where
    res: "trpo_configure 0 (Obj ''observation_space'') (Obj ''cuda:0'') ?st = Inr (cfg, st')"
    and sc: "list_all (\<lambda>(k, v). lookup cfg k st' = Some v)
               [(''rollouts'', PyInt 16), (''learning_epochs'', PyInt 6),
                (''mini_batches'', PyInt 2), (''grad_norm_clip'', PyFloat 0.5),
                (''value_loss_scale'', PyFloat 2.0), (''lambda'', PyFloat 0.95),
                (''state_preprocessor'', Obj ''RunningStandardScaler''),
                (''value_preprocessor'', Obj ''RunningStandardScaler'')]"
    and ne: "list_all (\<lambda>(k1, k2, v). lookup2 cfg k1 k2 st' = Some v)
               [(''state_preprocessor_kwargs'', ''size'', Obj ''observation_space''),
                (''state_preprocessor_kwargs'', ''device'', Obj ''cuda:0''),
                (''value_preprocessor_kwargs'', ''size'', PyInt 1),
                (''value_preprocessor_kwargs'', ''device'', Obj ''cuda:0''),
                (''experiment'', ''write_interval'', PyInt 16),
                (''experiment'', ''checkpoint_interval'', PyInt 125)]"
    and fr: "\<forall>k. k \<notin> set trpo_assigned \<longrightarrow> lookup cfg k st' = lookup (Ref 0) k ?st"
    and inn: "\<forall>k. k \<noteq> ''write_interval'' \<and> k \<noteq> ''checkpoint_interval'' \<longrightarrow>
                 lookup2 cfg ''experiment'' k st' = lookup2 (Ref 0) ''experiment'' k ?st"
    by (elim exE conjE)
  have "lookup cfg ''rollouts'' st' = Some (PyInt 16)"
      "lookup cfg ''value_loss_scale'' st' = Some (PyFloat 2.0)"
      "lookup2 cfg ''experiment'' ''write_interval'' st' = Some (PyInt 16)"
    using sc ne by simp_all
  moreover have "lookup cfg ''discount_factor'' st' = Some (PyFloat 0.99)"
    using fr [rule_format, OF unassigned] before(1) by simp
  moreover have "lookup2 cfg ''experiment'' ''directory'' st' = Some (PyStr ''runs'')"
    using inn [rule_format, OF other] before(2) by simp
  ultimately show ?thesis using res by (intro exI conjI)
qed

text \<open>
  Claim C8. The copy of the default configuration is shallow: the copy is a new dict,
  but its entry \<^verbatim>\<open>"experiment"\<close> refers to the same dict as the default's. So the
  assignments to write_interval and checkpoint_interval through the copy are seen
  through the default configuration as well (500 and 5000 after the A2C script, 16 and
  125 after the TRPO script), while the top-level entries of the default are exactly
  what they were: the top-level assignments went to the copy.
\<close>

theorem nested_override_reaches_default:
  assumes "store_ok st" and "dicts st dflt = Some d" and "d ''experiment'' = Some (Ref e)"
    and "dicts st e = Some ex" and "e \<noteq> dflt"
  shows "(\<exists>cfg st'. a2c_configure dflt obs dev st = Inr (cfg, st')
          \<and> cfg \<noteq> Ref dflt
          \<and> lookup cfg ''experiment'' st' = Some (Ref e)
          \<and> lookup (Ref dflt) ''experiment'' st' = Some (Ref e)
          \<and> lookup2 (Ref dflt) ''experiment'' ''write_interval'' st' = Some (PyInt 500)
          \<and> lookup2 (Ref dflt) ''experiment'' ''checkpoint_interval'' st' = Some (PyInt 5000)
          \<and> dicts st' dflt = dicts st dflt)
       \<and> (\<exists>cfg st'. trpo_configure dflt obs dev st = Inr (cfg, st')
          \<and> cfg \<noteq> Ref dflt
          \<and> lookup cfg ''experiment'' st' = Some (Ref e)
          \<and> lookup (Ref dflt) ''experiment'' st' = Some (Ref e)
          \<and> lookup2 (Ref dflt) ''experiment'' ''write_interval'' st' = Some (PyInt 16)
          \<and> lookup2 (Ref dflt) ''experiment'' ''checkpoint_interval'' st' = Some (PyInt 125)
          \<and> dicts st' dflt = dicts st dflt)"
    (is "(\<exists>cfg st'. ?A cfg st') \<and> (\<exists>cfg st'. ?T cfg st')")
proof (rule conjI)
  have lt: "dflt < fresh st"
    using assms store_ok_lt by blast
  obtain st' where res: "a2c_configure dflt obs dev st = Inr (Ref (fresh st), st')"
    and c: "dicts st' (fresh st) = Some (d(''rollouts'' \<mapsto> PyInt 1024,
                       ''learning_epochs'' \<mapsto> PyInt 10,
                       ''mini_batches'' \<mapsto> PyInt 32,
                       ''discount_factor'' \<mapsto> PyFloat (9 / 10),
                       ''lambda'' \<mapsto> PyFloat (19 / 20),
                       ''learning_rate'' \<mapsto> PyFloat (1 / 1000),
                       ''learning_rate_scheduler'' \<mapsto> Obj ''KLAdaptiveRL'',
                       ''learning_rate_scheduler_kwargs'' \<mapsto>
                       Ref (Suc (fresh st)), ''random_timesteps'' \<mapsto> PyInt 0,
                       ''learning_starts'' \<mapsto> PyInt 0,
                       ''grad_norm_clip'' \<mapsto> PyFloat (1 / 2),
                       ''entropy_loss_scale'' \<mapsto> PyFloat 0,
                       ''state_preprocessor'' \<mapsto>
                       Obj ''RunningStandardScaler'',
                       ''state_preprocessor_kwargs'' \<mapsto>
                       Ref (Suc (Suc (fresh st))),
                       ''value_preprocessor'' \<mapsto>
                       Obj ''RunningStandardScaler'',
                       ''value_preprocessor_kwargs'' \<mapsto>
                       Ref (Suc (Suc (Suc (fresh st))))))"
    and ex: "dicts st' e =
           Some (ex(''write_interval'' \<mapsto> PyInt 500, ''checkpoint_interval'' \<mapsto> PyInt 5000))"
    and dfl: "dicts st' dflt = Some d"
    using a2c_configure_dicts [OF assms(2,3,4,5,1), of obs dev] by blast
  have "?A (Ref (fresh st)) st'"
    using lt by (simp add: res lookup2_def lookup_def getitem_def c ex dfl assms(2,3))
  then show "\<exists>cfg st'. ?A cfg st'" by blast
next
  have lt: "dflt < fresh st"
    using assms store_ok_lt by blast
  obtain st' where res: "trpo_configure dflt obs dev st = Inr (Ref (fresh st), st')"
    and c: "dicts st' (fresh st) = Some (d(''rollouts'' \<mapsto> PyInt 16, ''learning_epochs'' \<mapsto> PyInt 6,
                       ''mini_batches'' \<mapsto> PyInt 2,
                       ''grad_norm_clip'' \<mapsto> PyFloat (1 / 2),
                       ''value_loss_scale'' \<mapsto> PyFloat 2,
                       ''lambda'' \<mapsto> PyFloat (19 / 20),
                       ''state_preprocessor'' \<mapsto>
                       Obj ''RunningStandardScaler'',
                       ''state_preprocessor_kwargs'' \<mapsto> Ref (Suc (fresh st)),
                       ''value_preprocessor'' \<mapsto>
                       Obj ''RunningStandardScaler'',
                       ''value_preprocessor_kwargs'' \<mapsto>
                       Ref (Suc (Suc (fresh st)))))"
    and ex: "dicts st' e =
           Some (ex(''write_interval'' \<mapsto> PyInt 16, ''checkpoint_interval'' \<mapsto> PyInt 125))"
    and dfl: "dicts st' dflt = Some d"
    using trpo_configure_dicts [OF assms(2,3,4,5,1), of obs dev] by blast
  have "?T (Ref (fresh st)) st'"
    using lt by (simp add: res lookup2_def lookup_def getitem_def c ex dfl assms(2,3))
  then show "\<exists>cfg st'. ?T cfg st'" by blast
qed

text \<open>
  The theorem at a concrete store: the default's experiment dict holds write_interval =
  250 before the A2C configuration runs and 500 after it, read through the default;
  the default's own entries are unchanged.
\<close>

theorem nested_override_reaches_default_witness:
  "lookup2 (Ref 0) ''experiment'' ''write_interval''
     \<lparr>dicts = [0 \<mapsto> [''rollouts'' \<mapsto> PyInt 16, ''experiment'' \<mapsto> Ref 1],
               1 \<mapsto> [''write_interval'' \<mapsto> PyInt 250, ''checkpoint_interval'' \<mapsto> PyInt 1000]],
      fresh = 2\<rparr> = Some (PyInt 250)
   \<and> (\<exists>cfg st'.
         a2c_configure 0 (Obj ''observation_space'') (Obj ''cpu'')
           \<lparr>dicts = [0 \<mapsto> [''rollouts'' \<mapsto> PyInt 16, ''experiment'' \<mapsto> Ref 1],
                     1 \<mapsto> [''write_interval'' \<mapsto> PyInt 250, ''checkpoint_interval'' \<mapsto> PyInt 1000]],
            fresh = 2\<rparr> = Inr (cfg, st')
       \<and> lookup2 (Ref 0) ''experiment'' ''write_interval'' st' = Some (PyInt 500)
       \<and> lookup2 (Ref 0) ''experiment'' ''checkpoint_interval'' st' = Some (PyInt 5000)
       \<and> dicts st' 0 = Some [''rollouts'' \<mapsto> PyInt 16, ''experiment'' \<mapsto> Ref 1])"
proof -
  let ?st = "\<lparr>dicts = [0 \<mapsto> [''rollouts'' \<mapsto> PyInt 16, ''experiment'' \<mapsto> Ref 1],
               1 \<mapsto> [''write_interval'' \<mapsto> PyInt 250, ''checkpoint_interval'' \<mapsto> PyInt 1000]],
      fresh = 2\<rparr>"
  have ok: "store_ok ?st"
    by (auto simp: store_ok_def split: if_splits)
  have before: "lookup2 (Ref 0) ''experiment'' ''write_interval'' ?st = Some (PyInt 250)"
    by (simp add: lookup2_def lookup_def getitem_def)
  have d0: "dicts ?st 0 = Some [''rollouts'' \<mapsto> PyInt 16, ''experiment'' \<mapsto> Ref 1]"
    by simp
  have e0: "[''rollouts'' \<mapsto> PyInt 16, ''experiment'' \<mapsto> Ref 1] ''experiment'' = Some (Ref 1)"
    by simp
  have d1: "dicts ?st 1 = Some [''write_interval'' \<mapsto> PyInt 250, ''checkpoint_interval'' \<mapsto> PyInt 1000]"
    by simp
  have ne: "(1::nat) \<noteq> 0" by simp
  from nested_override_reaches_default [OF ok d0 e0 d1 ne, of "Obj ''observation_space''" "Obj ''cpu''"]
  have "\<exists>cfg st'. a2c_configure 0 (Obj ''observation_space'') (Obj ''cpu'') ?st = Inr (cfg, st')
       \<and> lookup2 (Ref 0) ''experiment'' ''write_interval'' st' = Some (PyInt 500)
       \<and> lookup2 (Ref 0) ''experiment'' ''checkpoint_interval'' st' = Some (PyInt 5000)
       \<and> dicts st' 0 = Some [''rollouts'' \<mapsto> PyInt 16, ''experiment'' \<mapsto> Ref 1]"
    using d0 by metis
  with before show ?thesis by blast
qed

section \<open>Properties of the rollout memory\<close>

lemma RandomMemory_init_fields [simp]:
  "memory_size (RandomMemory_init capacity n dev) = capacity"
  "num_envs (RandomMemory_init capacity n dev) = n"
  "memory_index (RandomMemory_init capacity n dev) = 0"
  "filled (RandomMemory_init capacity n dev) = False"
  "tensors (RandomMemory_init capacity n dev) = Map.empty"
  by (simp_all add: RandomMemory_init_def)

lemma add_samples_fields [simp]:
  "memory_size (add_samples row m) = memory_size m"
  "num_envs (add_samples row m) = num_envs m"
  by (simp_all add: add_samples_def Let_def)

lemma add_samples_index:
  "memory_index (add_samples row m) =
     (if memory_size m \<le> memory_index m + 1 then 0 else memory_index m + 1)"
  by (simp add: add_samples_def Let_def)

lemma add_samples_filled:
  "filled (add_samples row m) = (filled m \<or> memory_size m \<le> memory_index m + 1)"
  by (simp add: add_samples_def Let_def)

lemma add_samples_dom:
  "dom (tensors (add_samples row m)) =
     dom (tensors m) \<union> {memory_index m} \<times> {e. e < num_envs m \<and> e < length row}"
  by (auto simp: add_samples_def Let_def dom_def split: if_splits)

lemma fold_add_samples_fields [simp]:
  "memory_size (fold add_samples rows m) = memory_size m"
  "num_envs (fold add_samples rows m) = num_envs m"
  by (induction rows arbitrary: m) simp_all

lemma appended_state:
  assumes "0 < capacity"
  shows "memory_index (fold add_samples rows (RandomMemory_init capacity n dev)) = length rows mod capacity
       \<and> filled (fold add_samples rows (RandomMemory_init capacity n dev)) = (capacity \<le> length rows)"
proof (induction rows rule: rev_induct)
  case Nil
  show ?case using assms by simp
next
  case (snoc row rows)
  let ?m = "fold add_samples rows (RandomMemory_init capacity n dev :: 'a RandomMemory)"
  have size: "memory_size ?m = capacity" by simp
  have idx: "memory_index ?m = length rows mod capacity" using snoc by simp
  have fl: "filled ?m = (capacity \<le> length rows)" using snoc by simp
  have lt: "length rows mod capacity < capacity" using assms by simp
  show ?case
  proof (cases "capacity \<le> length rows mod capacity + 1")
    case True
    then have eq: "length rows mod capacity + 1 = capacity" using lt by simp
    then have "Suc (length rows) mod capacity = 0"
      by (metis Suc_eq_plus1 mod_Suc mod_self mod_mod_trivial)
    moreover have "capacity \<le> Suc (length rows)"
      using eq mod_less_eq_dividend [of "length rows" capacity] by linarith
    ultimately show ?thesis
      using True by (simp add: add_samples_index add_samples_filled idx fl)
  next
    case False
    then have "Suc (length rows) mod capacity = Suc (length rows mod capacity)"
      by (simp add: mod_Suc)
    moreover have "(capacity \<le> Suc (length rows)) = (capacity \<le> length rows)"
    proof (cases "length rows < capacity")
      case True
      then have "length rows mod capacity = length rows" by simp
      with False show ?thesis by simp
    next
      case False
      then show ?thesis by simp
    qed
    ultimately show ?thesis
      using False by (simp add: add_samples_index add_samples_filled idx fl)
  qed
qed

lemma appended_dom_subset:
  assumes "0 < capacity"
  shows "dom (tensors (fold add_samples rows (RandomMemory_init capacity n dev)))
           \<subseteq> {0..<min (length rows) capacity} \<times> {0..<n}"
proof (induction rows rule: rev_induct)
  case Nil
  show ?case by simp
next
  case (snoc row rows)
  let ?m = "fold add_samples rows (RandomMemory_init capacity n dev :: 'a RandomMemory)"
  have idx: "memory_index ?m = length rows mod capacity"
    using appended_state [OF assms] by blast
  have n: "num_envs ?m = n" by simp
  have "length rows mod capacity < Suc (length rows)"
    using mod_less_eq_dividend [of "length rows" capacity] by (rule le_imp_less_Suc)
  moreover have "length rows mod capacity < capacity"
    using assms by simp
  ultimately have slot: "length rows mod capacity < min (Suc (length rows)) capacity"
    by simp
  have "{0..<min (length rows) capacity} \<subseteq> {0..<min (Suc (length rows)) capacity}"
    by auto
  with snoc slot show ?case
    by (auto simp: add_samples_dom idx n)
qed

lemma appended_dom_full:
  assumes "0 < capacity" and "\<forall>row \<in> set rows. length row = n"
  shows "dom (tensors (fold add_samples rows (RandomMemory_init capacity n dev)))
           = {0..<min (length rows) capacity} \<times> {0..<n}"
  using assms(2)
proof (induction rows rule: rev_induct)
  case Nil
  show ?case by simp
next
  case (snoc row rows)
  let ?m = "fold add_samples rows (RandomMemory_init capacity n dev :: 'a RandomMemory)"
  have idx: "memory_index ?m = length rows mod capacity"
    using appended_state [OF assms(1)] by blast
  have n: "num_envs ?m = n" by simp
  have len: "length row = n" using snoc.prems by simp
  have IH: "dom (tensors ?m) = {0..<min (length rows) capacity} \<times> {0..<n}"
    using snoc by simp
  have slots: "{0..<min (length rows) capacity} \<union> {length rows mod capacity}
                = {0..<min (Suc (length rows)) capacity}"
  proof (cases "length rows < capacity")
    case True
    then show ?thesis by (auto simp: min_def)
  next
    case False
    then have "length rows mod capacity < capacity" using assms(1) by simp
    with False show ?thesis by (auto simp: min_def)
  qed
  have "dom (tensors (add_samples row ?m))
          = {0..<min (length rows) capacity} \<times> {0..<n} \<union> {length rows mod capacity} \<times> {0..<n}"
    by (auto simp: add_samples_dom idx n len IH)
  also have "\<dots> = ({0..<min (length rows) capacity} \<union> {length rows mod capacity}) \<times> {0..<n}"
    by auto
  finally show ?case using slots by simp
qed

lemma sample_all_distinct: "distinct (sample_all m)"
  by (simp add: sample_all_def distinct_product)

lemma sample_all_set:
  "dom (tensors m) \<subseteq> {0..<memory_size m} \<times> {0..<num_envs m} \<Longrightarrow>
   set (sample_all m) = dom (tensors m)"
  by (auto simp: sample_all_def dom_def split: option.splits)

text \<open>
  Claim C7. Whatever rows are appended to the memory a script creates, the memory never
  holds more transitions than its capacity: every stored key lies within the 1024 slots
  (A2C) or 16 slots (TRPO) and the environments, so at most 1024 (16) transitions are
  stored per environment. An append writes the slot \<open>length rows mod capacity\<close>:
  beyond the capacity it wraps around and overwrites, it does not grow the store. The
  batch an update consumes lists every stored transition, and none twice.
\<close>

theorem rollout_memory_within_capacity:
  "(let m = fold add_samples rows (a2c_memory n dev) in
      dom (tensors m) \<subseteq> {0..<1024} \<times> {0..<n}
    \<and> card (dom (tensors m)) \<le> 1024 * n
    \<and> card {t. (t, e) \<in> dom (tensors m)} \<le> 1024
    \<and> memory_index m = length rows mod 1024
    \<and> dom (tensors (add_samples row m))
        = dom (tensors m) \<union> {length rows mod 1024} \<times> {i. i < n \<and> i < length row}
    \<and> distinct (sample_all m)
    \<and> set (sample_all m) = dom (tensors m))
   \<and> (let m = fold add_samples rows (trpo_memory n dev) in
      dom (tensors m) \<subseteq> {0..<16} \<times> {0..<n}
    \<and> card (dom (tensors m)) \<le> 16 * n
    \<and> card {t. (t, e) \<in> dom (tensors m)} \<le> 16
    \<and> memory_index m = length rows mod 16
    \<and> dom (tensors (add_samples row m))
        = dom (tensors m) \<union> {length rows mod 16} \<times> {i. i < n \<and> i < length row}
    \<and> distinct (sample_all m)
    \<and> set (sample_all m) = dom (tensors m))"
proof -
  have bounded: "dom (tensors m) \<subseteq> {0..<c} \<times> {0..<n}
      \<and> card (dom (tensors m)) \<le> c * n
      \<and> card {t. (t, e) \<in> dom (tensors m)} \<le> c
      \<and> memory_index m = length rows mod c
      \<and> dom (tensors (add_samples row m))
          = dom (tensors m) \<union> {length rows mod c} \<times> {i. i < n \<and> i < length row}
      \<and> distinct (sample_all m)
      \<and> set (sample_all m) = dom (tensors m)"
    if m: "m = fold add_samples rows (RandomMemory_init c n dev)" and c: "0 < c"
    for m :: "'a RandomMemory" and c
  proof -
    have sub: "dom (tensors m) \<subseteq> {0..<c} \<times> {0..<n}"
      using appended_dom_subset [OF c, of rows n dev] unfolding m by auto
    have "card (dom (tensors m)) \<le> card ({0..<c} \<times> {0..<n})"
      by (rule card_mono) (use sub in simp_all)
    then have total: "card (dom (tensors m)) \<le> c * n"
      by simp
    have "{t. (t, e) \<in> dom (tensors m)} \<subseteq> {0..<c}"
      using sub by auto
    then have "card {t. (t, e) \<in> dom (tensors m)} \<le> card {0..<c}"
      by (rule card_mono [rotated]) simp
    then have per_env: "card {t. (t, e) \<in> dom (tensors m)} \<le> c"
      by simp
    have idx: "memory_index m = length rows mod c"
      using appended_state [OF c, of rows n dev] unfolding m by blast
    have fields: "memory_size m = c" "num_envs m = n"
      unfolding m by simp_all
    have app: "dom (tensors (add_samples row m))
          = dom (tensors m) \<union> {length rows mod c} \<times> {i. i < n \<and> i < length row}"
      by (simp add: add_samples_dom idx fields)
    have "set (sample_all m) = dom (tensors m)"
      by (rule sample_all_set) (use sub fields in simp)
    with sub total per_env idx app sample_all_distinct [of m] show ?thesis
      by blast
  qed
  show ?thesis
    unfolding Let_def a2c_memory_def trpo_memory_def
    using bounded [OF refl, of 1024] bounded [OF refl, of 16] by simp
qed

section \<open>Rollout length and memory capacity\<close>

text \<open>
  Claim C10. In each script the configured rollout length is the capacity of the
  memory the script creates (1024 in the A2C script, 16 in the TRPO script). So the
  appends of one rollout fill the memory exactly: after them the memory signals full,
  the index is back at the first slot, every slot of every environment holds a
  transition and the batch has capacity times environments entries; one append earlier
  the memory is not yet full.
\<close>

theorem rollouts_equal_memory_size:
  assumes "store_ok st" and "dicts st dflt = Some d" and "d ''experiment'' = Some (Ref e)"
    and "dicts st e = Some ex" and "e \<noteq> dflt"
    and "\<forall>row \<in> set rows. length row = n"
  shows "(\<exists>cfg st'. a2c_configure dflt obs dev st = Inr (cfg, st')
          \<and> lookup cfg ''rollouts'' st'
              = Some (PyInt (int (memory_size (a2c_memory n mdev :: 'a RandomMemory))))
          \<and> (length rows = 1024 \<longrightarrow>
               (let m = fold add_samples rows (a2c_memory n mdev :: 'a RandomMemory) in
                  filled m \<and> memory_index m = 0
                \<and> dom (tensors m) = {0..<1024} \<times> {0..<n}
                \<and> length (sample_all m) = 1024 * n)
               \<and> \<not> filled (fold add_samples (butlast rows) (a2c_memory n mdev :: 'a RandomMemory))))
       \<and> (\<exists>cfg st'. trpo_configure dflt obs dev st = Inr (cfg, st')
          \<and> lookup cfg ''rollouts'' st'
              = Some (PyInt (int (memory_size (trpo_memory n mdev :: 'a RandomMemory))))
          \<and> (length rows = 16 \<longrightarrow>
               (let m = fold add_samples rows (trpo_memory n mdev :: 'a RandomMemory) in
                  filled m \<and> memory_index m = 0
                \<and> dom (tensors m) = {0..<16} \<times> {0..<n}
                \<and> length (sample_all m) = 16 * n)
               \<and> \<not> filled (fold add_samples (butlast rows) (trpo_memory n mdev :: 'a RandomMemory))))"
    (is "(\<exists>cfg st'. ?A cfg st') \<and> (\<exists>cfg st'. ?T cfg st')")
proof (rule conjI)
  have full: "filled m \<and> memory_index m = 0
      \<and> dom (tensors m) = {0..<c} \<times> {0..<n}
      \<and> length (sample_all m) = c * n
      \<and> \<not> filled (fold add_samples (butlast rows) (RandomMemory_init c n mdev :: 'a RandomMemory))"
    if m: "m = fold add_samples rows (RandomMemory_init c n mdev)" and c: "0 < c"
      and len: "length rows = c"
    for m :: "'a RandomMemory" and c
  proof -
    have st: "filled m" "memory_index m = 0"
      using appended_state [OF c, of rows n mdev] len unfolding m by simp_all
    have dm: "dom (tensors m) = {0..<c} \<times> {0..<n}"
      using appended_dom_full [OF c assms(6), of mdev] len unfolding m by simp
    have fields: "memory_size m = c" "num_envs m = n"
      unfolding m by simp_all
    have "set (sample_all m) = dom (tensors m)"
      by (rule sample_all_set) (simp add: dm fields)
    then have "card (set (sample_all m)) = c * n"
      using dm by simp
    then have ln: "length (sample_all m) = c * n"
      using sample_all_distinct [of m] distinct_card by metis
    have "\<not> filled (fold add_samples (butlast rows) (RandomMemory_init c n mdev :: 'a RandomMemory))"
      using appended_state [OF c, of "butlast rows" n mdev] len c by simp
    with st dm ln show ?thesis by blast
  qed
  note full_a2c = full [OF refl, of 1024] and full_trpo = full [OF refl, of 16]
  obtain st' where res: "a2c_configure dflt obs dev st = Inr (Ref (fresh st), st')"
    and c: "\<exists>m. dicts st' (fresh st) = Some m \<and> m ''rollouts'' = Some (PyInt 1024)"
    using a2c_configure_dicts [OF assms(2,3,4,5,1), of obs dev] by fastforce
  have "?A (Ref (fresh st)) st'"
    using c full_a2c
    by (auto simp: res lookup_def getitem_def a2c_memory_def Let_def)
  then show "\<exists>cfg st'. ?A cfg st'" by blast
  obtain st' where res: "trpo_configure dflt obs dev st = Inr (Ref (fresh st), st')"
    and c: "\<exists>m. dicts st' (fresh st) = Some m \<and> m ''rollouts'' = Some (PyInt 16)"
    using trpo_configure_dicts [OF assms(2,3,4,5,1), of obs dev] by fastforce
  have "?T (Ref (fresh st)) st'"
    using c full_trpo
    by (auto simp: res lookup_def getitem_def trpo_memory_def Let_def)
  then show "\<exists>cfg st'. ?T cfg st'" by blast
qed

text \<open>
  The theorem at a concrete store and four environments: the A2C configuration holds
  rollouts = 1024, the memory has 1024 slots, and 1024 appends fill it while 1023 do
  not.
\<close>

theorem rollouts_equal_memory_size_witness:
  "(\<exists>cfg st'.
      a2c_configure 0 (Obj ''observation_space'') (Obj ''cpu'')
        \<lparr>dicts = [0 \<mapsto> [''rollouts'' \<mapsto> PyInt 16, ''experiment'' \<mapsto> Ref 1],
                  1 \<mapsto> [''write_interval'' \<mapsto> PyInt 250]],
         fresh = 2\<rparr> = Inr (cfg, st')
    \<and> lookup cfg ''rollouts'' st' = Some (PyInt 1024))
   \<and> memory_size (a2c_memory 4 ''cpu'' :: nat RandomMemory) = 1024
   \<and> filled (fold add_samples (replicate 1024 [0, 0, 0, 0]) (a2c_memory 4 ''cpu'' :: nat RandomMemory))
   \<and> \<not> filled (fold add_samples (butlast (replicate 1024 [0, 0, 0, 0]))
                  (a2c_memory 4 ''cpu'' :: nat RandomMemory))"
proof -
  let ?st = "\<lparr>dicts = [0 \<mapsto> [''rollouts'' \<mapsto> PyInt 16, ''experiment'' \<mapsto> Ref 1],
                  1 \<mapsto> [''write_interval'' \<mapsto> PyInt 250]],
         fresh = 2\<rparr>"
  let ?rows = "replicate 1024 [0, 0, 0, 0 :: nat]"
  have ok: "store_ok ?st"
    by (auto simp: store_ok_def split: if_splits)
  have d0: "dicts ?st 0 = Some [''rollouts'' \<mapsto> PyInt 16, ''experiment'' \<mapsto> Ref 1]"
    by simp
  have e0: "[''rollouts'' \<mapsto> PyInt 16, ''experiment'' \<mapsto> Ref 1] ''experiment'' = Some (Ref 1)"
    by simp
  have d1: "dicts ?st 1 = Some [''write_interval'' \<mapsto> PyInt 250]"
    by simp
  have ne: "(1::nat) \<noteq> 0" by simp
  have rows: "\<forall>row \<in> set ?rows. length row = 4" by simp
  have len: "length ?rows = 1024" by simp
  have sz: "memory_size (a2c_memory 4 ''cpu'' :: nat RandomMemory) = 1024"
    by (simp add: a2c_memory_def RandomMemory_init_def)
  from rollouts_equal_memory_size [OF ok d0 e0 d1 ne rows,
      of "Obj ''observation_space''" "Obj ''cpu''" "''cpu''"]
  show ?thesis
    using len sz by (auto simp: Let_def)
qed

end
